theory Spec2Isabelle
  imports Main "HOL-Library.Sublist"
begin

section \<open>JavaScript values and strings\<close>

text \<open>
  The tool handlers of \<^verbatim>\<open>createToolHandlers\<close> (the server module) are embedded as
  HOL functions. JavaScript strings are modelled as \<^typ>\<open>string\<close>; source texts and paths
  are taken to consist of code units below 256. A value that may be \<^verbatim>\<open>undefined\<close> is an
  \<^typ>\<open>'a option\<close>, with \<^term>\<open>None\<close> for \<^verbatim>\<open>undefined\<close>; a property that was never
  assigned and a property holding \<^verbatim>\<open>undefined\<close> are not told apart (\<^verbatim>\<open>JSON.stringify\<close>
  drops both).
\<close>

datatype json =
    JNull
  | JBool bool
  | JNum int
  | JStr string
  | JArr "json list"
  | JObj "(string \<times> json) list"

text \<open>JavaScript truthiness, for the operands of \<^verbatim>\<open>||\<close>, \<^verbatim>\<open>&&\<close>, \<^verbatim>\<open>!\<close> and \<^verbatim>\<open>if\<close>.\<close>

definition truthy_str :: "string option \<Rightarrow> bool" where
  "truthy_str v = (case v of None \<Rightarrow> False | Some s \<Rightarrow> s \<noteq> [])"

fun truthy_json :: "json option \<Rightarrow> bool" where
  "truthy_json None = False"
| "truthy_json (Some JNull) = False"
| "truthy_json (Some (JBool b)) = b"
| "truthy_json (Some (JNum n)) = (n \<noteq> 0)"
| "truthy_json (Some (JStr s)) = (s \<noteq> [])"
| "truthy_json (Some (JArr _)) = True"
| "truthy_json (Some (JObj _)) = True"

text \<open>\<^verbatim>\<open>a || b\<close> on strings that may be undefined.\<close>

definition or_str :: "string option \<Rightarrow> string option \<Rightarrow> string option" where
  "or_str a b = (if truthy_str a then a else b)"

text \<open>\<^verbatim>\<open>s.endsWith(t)\<close> and \<^verbatim>\<open>s.includes(t)\<close>.\<close>

definition endsWith :: "string \<Rightarrow> string \<Rightarrow> bool" where
  "endsWith s t = suffix t s"

definition str_includes :: "string \<Rightarrow> string \<Rightarrow> bool" where
  "str_includes s t = sublist t s"

text \<open>
  A thrown value, as far as a \<^verbatim>\<open>catch\<close> block that reads \<^verbatim>\<open>error.message\<close> can tell:
  an object with a message (what the runtime, \<^verbatim>\<open>node-fetch\<close> and \<^verbatim>\<open>fs\<close> throw are \<^verbatim>\<open>Error\<close>
  objects), \<^verbatim>\<open>null\<close>, \<^verbatim>\<open>undefined\<close>, or any other value, whose \<^verbatim>\<open>message\<close> is undefined.
  JavaScript lets a function throw any of them.
\<close>

datatype exn = Error string | ThrownNull | ThrownUndefined | ThrownValue

definition nullish :: "exn \<Rightarrow> bool" where
  "nullish e = (case e of ThrownNull \<Rightarrow> True | ThrownUndefined \<Rightarrow> True | _ \<Rightarrow> False)"

text \<open>Sequencing of computations that may throw: the first throw wins.\<close>

definition and_then :: "exn + 'a \<Rightarrow> ('a \<Rightarrow> exn + 'b) \<Rightarrow> exn + 'b" where
  "and_then m f = (case m of Inl e \<Rightarrow> Inl e | Inr x \<Rightarrow> f x)"

text \<open>\<^verbatim>\<open>try { body } catch (error) { handler }\<close>.\<close>

definition try_catch :: "exn + 'a \<Rightarrow> (exn \<Rightarrow> exn + 'a) \<Rightarrow> exn + 'a" where
  "try_catch body handler = (case body of Inl e \<Rightarrow> handler e | Inr x \<Rightarrow> Inr x)"

section \<open>Node's \<^verbatim>\<open>path\<close> module (POSIX)\<close>

text \<open>
  \<^verbatim>\<open>path.join\<close>, \<^verbatim>\<open>path.dirname\<close> and \<^verbatim>\<open>path.resolve\<close> as Node implements them for POSIX
  paths. A path is cut at every \<^verbatim>\<open>/\<close>; normalisation drops empty and \<^verbatim>\<open>.\<close> segments and
  lets \<^verbatim>\<open>..\<close> remove the segment before it.
\<close>

fun split_slash :: "string \<Rightarrow> string list" where
  "split_slash [] = [[]]"
| "split_slash (c # cs) =
     (if c = CHR ''/'' then [] # split_slash cs
      else (case split_slash cs of
              [] \<Rightarrow> [[c]]
            | s # ss \<Rightarrow> (c # s) # ss))"

fun join_slash :: "string list \<Rightarrow> string" where
  "join_slash [] = []"
| "join_slash [s] = s"
| "join_slash (s # t # ss) = s @ ''/'' @ join_slash (t # ss)"

definition normalize_step :: "bool \<Rightarrow> string list \<Rightarrow> string \<Rightarrow> string list" where
  "normalize_step allowAboveRoot res seg =
     (if seg = [] \<or> seg = ''.'' then res
      else if seg = ''..'' then
        (if res \<noteq> [] \<and> last res \<noteq> ''..'' then butlast res
         else if allowAboveRoot then res @ [''..'']
         else res)
      else res @ [seg])"

definition normalizeString :: "string \<Rightarrow> bool \<Rightarrow> string" where
  "normalizeString p allowAboveRoot =
     join_slash (foldl (normalize_step allowAboveRoot) [] (split_slash p))"

definition isAbsolute :: "string \<Rightarrow> bool" where
  "isAbsolute p = (case p of [] \<Rightarrow> False | c # _ \<Rightarrow> c = CHR ''/'')"

definition path_normalize :: "string \<Rightarrow> string" where
  "path_normalize p =
     (if p = [] then ''.''
      else
        let trailingSeparator = (last p = CHR ''/'');
            q = normalizeString p (\<not> isAbsolute p)
        in if q = [] then
             (if isAbsolute p then ''/'' else if trailingSeparator then ''./'' else ''.'')
           else
             (if isAbsolute p then ''/'' else []) @ q @ (if trailingSeparator then ''/'' else []))"

text \<open>\<^verbatim>\<open>path.join(a, b)\<close>: the non-empty arguments joined by \<^verbatim>\<open>/\<close>, then normalised.\<close>

definition path_join :: "string \<Rightarrow> string \<Rightarrow> string" where
  "path_join a b =
     (if a = [] \<and> b = [] then ''.''
      else if a = [] then path_normalize b
      else if b = [] then path_normalize a
      else path_normalize (a @ ''/'' @ b))"

text \<open>
  \<^verbatim>\<open>path.dirname(p)\<close>: scanning from the right over the indices \<open>\<ge> 1\<close>, skip the trailing
  slashes and the last segment; the slash found there ends the directory.
\<close>

definition path_dirname :: "string \<Rightarrow> string" where
  "path_dirname p =
     (if p = [] then ''.''
      else
        let r = dropWhile (\<lambda>c. c \<noteq> CHR ''/'')
                  (dropWhile (\<lambda>c. c = CHR ''/'') (rev (tl p)));
            end' = length r
        in if r = [] then (if isAbsolute p then ''/'' else ''.'')
           else if isAbsolute p \<and> end' = 1 then ''//''
           else take end' p)"

text \<open>
  \<^verbatim>\<open>path.resolve(a, b)\<close>: the arguments are prefixed from the right until the path is
  absolute, the working directory last; the result is normalised and has no trailing slash.
\<close>

definition path_resolve :: "string \<Rightarrow> string \<Rightarrow> string \<Rightarrow> string" where
  "path_resolve cwd a b =
     (let r0 = [];
          r1 = (if b = [] then r0 else b @ ''/'' @ r0);
          abs1 = (b \<noteq> [] \<and> isAbsolute b);
          r2 = (if abs1 \<or> a = [] then r1 else a @ ''/'' @ r1);
          abs2 = (abs1 \<or> (a \<noteq> [] \<and> isAbsolute a));
          r3 = (if abs2 \<or> cwd = [] then r2 else cwd @ ''/'' @ r2);
          abs3 = (abs2 \<or> (cwd \<noteq> [] \<and> isAbsolute cwd));
          q = normalizeString r3 (\<not> abs3)
      in if abs3 then ''/'' @ q
         else if q \<noteq> [] then q
         else ''.'')"

section \<open>The two regular expressions of \<^verbatim>\<open>getStoryDocs\<close>\<close>

text \<open>
  The character classes \<^verbatim>\<open>\s\<close> and \<^verbatim>\<open>\w\<close> of a JavaScript regular expression (without the
  \<^verbatim>\<open>u\<close> and \<^verbatim>\<open>i\<close> flags), on code units below 256.
\<close>

definition is_space :: "char \<Rightarrow> bool" where
  "is_space c = (of_char c \<in> {9, 10, 11, 12, 13, 32, 160 :: nat})"

definition is_word :: "char \<Rightarrow> bool" where
  "is_word c =
     (let n = (of_char c :: nat)
      in (48 \<le> n \<and> n \<le> 57) \<or> (65 \<le> n \<and> n \<le> 90) \<or> n = 95 \<or> (97 \<le> n \<and> n \<le> 122))"

definition is_quote :: "char \<Rightarrow> bool" where
  "is_quote c = (c = CHR 0x27 \<or> c = CHR 0x22)"

text \<open>
  \<^verbatim>\<open>/component:\s*(\w+)/\<close> tried at the start of \<open>s\<close>: the literal, then all the white
  space, then the longest run of word characters, which must not be empty. The result is
  capture group 1.
\<close>

definition component_regex_at :: "string \<Rightarrow> string option" where
  "component_regex_at s =
     (if prefix ''component:'' s then
        let w = takeWhile is_word (dropWhile is_space (drop 10 s))
        in if w = [] then None else Some w
      else None)"

text \<open>\<^verbatim>\<open>content.match(/component:\s*(\w+)/)\<close>: the leftmost position where the expression matches.\<close>

fun component_regex :: "string \<Rightarrow> string option" where
  "component_regex [] = None"
| "component_regex (c # cs) =
     (case component_regex_at (c # cs) of
        Some w \<Rightarrow> Some w
      | None \<Rightarrow> component_regex cs)"

text \<open>
  The expression built from the component name \<open>name\<close> (word characters only, so nothing in
  it is a metacharacter):
  \<^verbatim>\<open>import\s*\{[^}]*name[^}]*\}\s*from\s*['"]([^'"]+)['"]\<close>,
  tried at the start of \<open>s\<close>. The braces enclose the text up to the first closing brace,
  which must contain \<open>name\<close>; the specifier is the longest run without a quote after the
  opening quote, not empty and followed by a quote.
\<close>

definition import_regex_at :: "string \<Rightarrow> string \<Rightarrow> string option" where
  "import_regex_at name s =
     (if \<not> prefix ''import'' s then None
      else
        (case dropWhile is_space (drop 6 s) of
           [] \<Rightarrow> None
         | b # s2 \<Rightarrow>
             if b \<noteq> CHR ''{'' then None
             else
               let body = takeWhile (\<lambda>c. c \<noteq> CHR ''}'') s2;
                   s3 = dropWhile (\<lambda>c. c \<noteq> CHR ''}'') s2
               in if s3 = [] \<or> \<not> str_includes body name then None
                  else
                    let s5 = dropWhile is_space (tl s3)
                    in if \<not> prefix ''from'' s5 then None
                       else
                         (case dropWhile is_space (drop 4 s5) of
                            [] \<Rightarrow> None
                          | q # s7 \<Rightarrow>
                              if \<not> is_quote q then None
                              else
                                let spec = takeWhile (\<lambda>c. \<not> is_quote c) s7;
                                    s8 = dropWhile (\<lambda>c. \<not> is_quote c) s7
                                in if spec = [] \<or> s8 = [] then None else Some spec)))"

fun import_regex :: "string \<Rightarrow> string \<Rightarrow> string option" where
  "import_regex name [] = None"
| "import_regex name (c # cs) =
     (case import_regex_at name (c # cs) of
        Some spec \<Rightarrow> Some spec
      | None \<Rightarrow> import_regex name cs)"

section \<open>The data model\<close>

text \<open>An entry of Storybook's \<^verbatim>\<open>index.json\<close>; every property may be missing.\<close>

record story_entry =
  e_id :: "string option"
  e_name :: "string option"
  e_title :: "string option"
  e_kind :: "string option"
  e_importPath :: "string option"
  e_tags :: "string list option"
  e_type :: "string option"

text \<open>
  \<^verbatim>\<open>data.entries\<close>: the own properties of the object, in enumeration order, with distinct
  keys.
\<close>

type_synonym inventory = "(string \<times> story_entry) list"

text \<open>What \<^verbatim>\<open>response.json()\<close> resolves to: \<^verbatim>\<open>null\<close>, or an object whose \<^verbatim>\<open>entries\<close> may be missing.\<close>

datatype index_json = IndexNull | IndexObject "inventory option"

datatype response = Response (ok: bool) (json_body: "exn + index_json")

text \<open>What \<^verbatim>\<open>extractComponentDocs\<close> returns for a component file.\<close>

record component_docs =
  cd_selector :: "string option"
  cd_template :: "string option"
  cd_componentCode :: "string option"
  cd_properties :: "json option"
  cd_description :: "string option"

text \<open>A story variant and what \<^verbatim>\<open>extractStoryExamples\<close> returns for a story file.\<close>

record story_variant =
  v_args :: "json option"

record story_file_doc =
  sf_imports :: "string list option"
  sf_meta :: "string option"
  sf_stories :: "(string \<times> story_variant) list option"

text \<open>What \<^verbatim>\<open>parseStoryFile\<close> returns.\<close>

record parsed_story =
  p_component :: "string option"
  p_args :: "json option"
  p_argTypes :: "json option"
  p_componentDocs :: "component_docs option"

text \<open>
  Everything outside the handlers: the HTTP fetch of the index, the file system, the
  working directory, and the three file-reading functions of the parsers module, which is
  not part of the sources at hand: they are taken as they come, and may throw.
\<close>

record world =
  fetch :: "string \<Rightarrow> exn + response"
  existsSync :: "string \<Rightarrow> bool"
  readFileSync :: "string \<Rightarrow> exn + string"
  cwd :: string
  extractComponentDocs :: "string \<Rightarrow> exn + component_docs option"
  extractStoryExamples :: "string \<Rightarrow> exn + story_file_doc option"
  parseStoryFile :: "string \<Rightarrow> string option \<Rightarrow> string \<Rightarrow> exn + parsed_story option"

text \<open>
  What \<^verbatim>\<open>createToolHandlers(config)\<close> closes over: the two configuration values, the
  framework detected once for the project, and \<^verbatim>\<open>generateUsageExample\<close> of the parsers
  module, called with the selector, the variant's arguments, the variant's name and the
  framework.
\<close>

record env =
  storybookUrl :: string
  projectDir :: string
  framework :: string
  generateUsageExample :: "string \<Rightarrow> json option \<Rightarrow> string \<Rightarrow> string \<Rightarrow> exn + string"

text \<open>The argument object of a handler; \<^verbatim>\<open>ArgsUndefined\<close> when the caller passed none.\<close>

datatype args = ArgsUndefined | ArgsObject (arg_storyId: "string option") (arg_kind: "string option")

text \<open>A handler's result: \<^verbatim>\<open>{ success: true, ... }\<close> or \<^verbatim>\<open>{ success: false, error, hint }\<close>.\<close>

datatype 'a tool_result = Success 'a | Failure (error: "string option") (hint: "string option")

definition success :: "'a tool_result \<Rightarrow> bool" where
  "success r = (case r of Success _ \<Rightarrow> True | Failure _ _ \<Rightarrow> False)"

record story_summary =
  ss_id :: "string option"
  ss_name :: "string option"
  ss_title :: "string option"
  ss_kind :: "string option"
  ss_importPath :: "string option"
  ss_tags :: "string list"
  ss_type :: "string option"

record story_listing =
  sl_count :: nat
  sl_stories :: "story_summary list"

record story =
  s_id :: "string option"
  s_name :: "string option"
  s_title :: "string option"
  s_kind :: "string option"
  s_importPath :: "string option"
  s_tags :: "string list"
  s_type :: "string option"
  s_component :: "string option"
  s_args :: "json option"
  s_argTypes :: "json option"
  s_docs :: "component_docs option"

record kind_summary =
  ks_id :: "string option"
  ks_name :: "string option"
  ks_title :: "string option"
  ks_kind :: "string option"
  ks_type :: "string option"

record kind_listing =
  kl_count :: nat
  kl_kind :: "string option"
  kl_stories :: "kind_summary list"

text \<open>The \<^verbatim>\<open>docs\<close> object of \<^verbatim>\<open>getStoryDocs\<close>, with the property names of the source.\<close>

record docs =
  storyId :: "string option"
  title :: "string option"
  name :: "string option"
  entryType :: "string option"
  docFramework :: string
  component :: "string option"
  selector :: "string option"
  template :: "string option"
  componentCode :: "string option"
  properties :: "json option"
  componentDescription :: "string option"
  "imports" :: "string list option"
  metaCode :: "string option"
  storyExamples :: "(string \<times> story_variant) list option"
  usageExamples :: "(string \<times> string) list option"
  mdxContent :: "string option"

section \<open>Looking a story up in the inventory\<close>

text \<open>\<^verbatim>\<open>data.entries\<close> throws a \<^verbatim>\<open>TypeError\<close> when \<^verbatim>\<open>data\<close> is \<^verbatim>\<open>null\<close>.\<close>

definition get_entries :: "index_json \<Rightarrow> exn + inventory option" where
  "get_entries data =
     (case data of
        IndexNull \<Rightarrow> Inl (Error ''Cannot read properties of null (reading 'entries')'')
      | IndexObject es \<Rightarrow> Inr es)"

text \<open>
  The object that \<^verbatim>\<open>JSON.parse\<close> builds for \<^verbatim>\<open>entries\<close> inherits from \<^verbatim>\<open>Object.prototype\<close>,
  and \<^verbatim>\<open>entries[key]\<close> reads an inherited property when there is no own one. The inherited
  values are functions (of which the handlers read only \<^verbatim>\<open>name\<close>, the function's name; the
  other properties read are undefined), and, under \<^verbatim>\<open>__proto__\<close>, the prototype object
  itself. All of them are truthy.
\<close>

definition blank_entry :: story_entry where
  "blank_entry =
     \<lparr>e_id = None, e_name = None, e_title = None, e_kind = None,
      e_importPath = None, e_tags = None, e_type = None\<rparr>"

definition prototype_methods :: "string list" where
  "prototype_methods =
     [''__defineGetter__'', ''__defineSetter__'', ''hasOwnProperty'', ''__lookupGetter__'',
      ''__lookupSetter__'', ''isPrototypeOf'', ''propertyIsEnumerable'', ''toString'',
      ''valueOf'', ''toLocaleString'']"

definition inherited_property :: "string \<Rightarrow> story_entry option" where
  "inherited_property key =
     (if key = ''constructor'' then Some (blank_entry\<lparr>e_name := Some ''Object''\<rparr>)
      else if key \<in> set prototype_methods then Some (blank_entry\<lparr>e_name := Some key\<rparr>)
      else if key = ''__proto__'' then Some blank_entry
      else None)"

text \<open>A value that may be undefined, turned into a property key or put into a template literal.\<close>

definition to_string :: "string option \<Rightarrow> string" where
  "to_string v = (case v of None \<Rightarrow> ''undefined'' | Some s \<Rightarrow> s)"

text \<open>\<^verbatim>\<open>data.entries?.[storyId]\<close>\<close>

definition lookup_entry :: "inventory option \<Rightarrow> string option \<Rightarrow> story_entry option" where
  "lookup_entry entries sid =
     (case entries of
        None \<Rightarrow> None
      | Some es \<Rightarrow>
          (case map_of es (to_string sid) of
             Some e \<Rightarrow> Some e
           | None \<Rightarrow> inherited_property (to_string sid)))"

text \<open>The two early results of \<^verbatim>\<open>getStory\<close> and \<^verbatim>\<open>getStoryDocs\<close>.\<close>

definition not_found :: "string option \<Rightarrow> 'a tool_result" where
  "not_found sid = Failure (Some (''Story \"'' @ to_string sid @ ''\" not found'')) None"

definition not_ready :: "'a tool_result" where
  "not_ready = Failure (Some ''Storybook is not ready'') None"

text \<open>
  \<^verbatim>\<open>catch (error) { return { success: false, error: error.message }; }\<close>. Reading
  \<^verbatim>\<open>message\<close> of \<^verbatim>\<open>null\<close> or \<^verbatim>\<open>undefined\<close> throws a \<^verbatim>\<open>TypeError\<close> out of the \<^verbatim>\<open>catch\<close> block.
\<close>

definition caught :: "exn \<Rightarrow> exn + 'a tool_result" where
  "caught e =
     (case e of
        Error m \<Rightarrow> Inr (Failure (Some m) None)
      | ThrownValue \<Rightarrow> Inr (Failure None None)
      | ThrownNull \<Rightarrow> Inl (Error ''Cannot read properties of null (reading 'message')'')
      | ThrownUndefined \<Rightarrow>
          Inl (Error ''Cannot read properties of undefined (reading 'message')''))"

section \<open>\<^verbatim>\<open>listStories\<close> and \<^verbatim>\<open>getStoriesByKind\<close>\<close>

definition summary_of :: "story_entry \<Rightarrow> story_summary" where
  "summary_of entry =
     \<lparr>ss_id = e_id entry, ss_name = e_name entry, ss_title = e_title entry,
      ss_kind = or_str (e_kind entry) (e_title entry),
      ss_importPath = e_importPath entry,
      ss_tags = (case e_tags entry of None \<Rightarrow> [] | Some ts \<Rightarrow> ts),
      ss_type = e_type entry\<rparr>"

text \<open>\<^verbatim>\<open>Object.values(data.entries || {})\<close>\<close>

definition entry_values :: "inventory option \<Rightarrow> story_entry list" where
  "entry_values entries = (case entries of None \<Rightarrow> [] | Some es \<Rightarrow> map snd es)"

definition listStories_try :: "env \<Rightarrow> world \<Rightarrow> args \<Rightarrow> exn + story_listing tool_result" where
  "listStories_try env w a =
     and_then (fetch w (storybookUrl env @ ''/index.json'')) (\<lambda>response.
       if \<not> ok response then
         Inr (Failure (Some ''Storybook is not ready. Please wait...'')
                (Some (''Make sure Storybook is running at '' @ storybookUrl env)))
       else
         and_then (json_body response) (\<lambda>data.
         and_then (get_entries data) (\<lambda>entries.
           let stories = map summary_of (entry_values entries);
               kind = (case a of ArgsUndefined \<Rightarrow> None | ArgsObject _ k \<Rightarrow> k);
               stories' =
                 (if truthy_str kind
                  then filter (\<lambda>s. ss_kind s = kind \<or> ss_title s = kind) stories
                  else stories)
           in Inr (Success \<lparr>sl_count = length stories', sl_stories = stories'\<rparr>))))"

definition listStories :: "env \<Rightarrow> world \<Rightarrow> args \<Rightarrow> exn + story_listing tool_result" where
  "listStories env w a = try_catch (listStories_try env w a) caught"

text \<open>\<^verbatim>\<open>const { storyId } = args\<close> throws a \<^verbatim>\<open>TypeError\<close> when \<^verbatim>\<open>args\<close> is undefined.\<close>

definition destructure :: "args \<Rightarrow> string \<Rightarrow> exn + (string option \<times> string option)" where
  "destructure a prop =
     (case a of
        ArgsUndefined \<Rightarrow>
          Inl (Error (''Cannot destructure property '' @ [CHR 0x27] @ prop @ [CHR 0x27]
                        @ '' of 'args' as it is undefined.''))
      | ArgsObject sid k \<Rightarrow> Inr (sid, k))"

definition kind_summary_of :: "story_entry \<Rightarrow> kind_summary" where
  "kind_summary_of entry =
     \<lparr>ks_id = e_id entry, ks_name = e_name entry, ks_title = e_title entry,
      ks_kind = or_str (e_kind entry) (e_title entry), ks_type = e_type entry\<rparr>"

definition getStoriesByKind_try :: "env \<Rightarrow> world \<Rightarrow> args \<Rightarrow> exn + kind_listing tool_result" where
  "getStoriesByKind_try env w a =
     and_then (destructure a ''kind'') (\<lambda>(_, kind).
     and_then (fetch w (storybookUrl env @ ''/index.json'')) (\<lambda>response.
       if \<not> ok response then Inr not_ready
       else
         and_then (json_body response) (\<lambda>data.
         and_then (get_entries data) (\<lambda>entries.
           let stories =
                 map kind_summary_of
                   (filter (\<lambda>entry. e_kind entry = kind \<or> e_title entry = kind)
                      (entry_values entries))
           in Inr (Success \<lparr>kl_count = length stories, kl_kind = kind, kl_stories = stories\<rparr>)))))"

definition getStoriesByKind :: "env \<Rightarrow> world \<Rightarrow> args \<Rightarrow> exn + kind_listing tool_result" where
  "getStoriesByKind env w a = try_catch (getStoriesByKind_try env w a) caught"

section \<open>\<^verbatim>\<open>getStory\<close>\<close>

text \<open>\<^verbatim>\<open>importPath.replace(/^\.\//, '')\<close>: one leading \<^verbatim>\<open>./\<close> is removed.\<close>

definition cleanPath :: "string \<Rightarrow> string" where
  "cleanPath importPath = (if prefix ''./'' importPath then drop 2 importPath else importPath)"

text \<open>The story file's location: \<^verbatim>\<open>path.join(projectDir, cleanPath)\<close>.\<close>

definition storyFilePath :: "string \<Rightarrow> string \<Rightarrow> string" where
  "storyFilePath dir importPath = path_join dir (cleanPath importPath)"

definition story_of :: "story_entry \<Rightarrow> story" where
  "story_of entry =
     \<lparr>s_id = e_id entry, s_name = e_name entry, s_title = e_title entry,
      s_kind = or_str (e_kind entry) (e_title entry),
      s_importPath = e_importPath entry,
      s_tags = (case e_tags entry of None \<Rightarrow> [] | Some ts \<Rightarrow> ts),
      s_type = e_type entry,
      s_component = None, s_args = None, s_argTypes = None, s_docs = None\<rparr>"

text \<open>\<^verbatim>\<open>v || {}\<close>\<close>

definition or_empty_object :: "json option \<Rightarrow> json" where
  "or_empty_object v =
     (case v of
        None \<Rightarrow> JObj []
      | Some j \<Rightarrow> if truthy_json (Some j) then j else JObj [])"

definition add_parsed :: "parsed_story \<Rightarrow> story \<Rightarrow> story" where
  "add_parsed parsed st =
     st\<lparr>s_component := p_component parsed,
        s_args := Some (or_empty_object (p_args parsed)),
        s_argTypes := Some (or_empty_object (p_argTypes parsed)),
        s_docs := p_componentDocs parsed\<rparr>"

text \<open>The rest of the \<^verbatim>\<open>try\<close> block of \<^verbatim>\<open>getStory\<close>, once the entry is found.\<close>

definition story_for :: "env \<Rightarrow> world \<Rightarrow> string option \<Rightarrow> story_entry \<Rightarrow> exn + story tool_result" where
  "story_for env w sid entry =
     (case e_importPath entry of
        None \<Rightarrow> Inr (Success (story_of entry))
      | Some importPath \<Rightarrow>
          if importPath = [] then Inr (Success (story_of entry))
          else
            and_then
              (parseStoryFile w (storyFilePath (projectDir env) importPath) sid (projectDir env))
              (\<lambda>parsed.
                 case parsed of
                   None \<Rightarrow> Inr (Success (story_of entry))
                 | Some ps \<Rightarrow> Inr (Success (add_parsed ps (story_of entry)))))"

definition getStory_try :: "env \<Rightarrow> world \<Rightarrow> args \<Rightarrow> exn + story tool_result" where
  "getStory_try env w a =
     and_then (destructure a ''storyId'') (\<lambda>(sid, _).
     and_then (fetch w (storybookUrl env @ ''/index.json'')) (\<lambda>response.
       if \<not> ok response then Inr not_ready
       else
         and_then (json_body response) (\<lambda>data.
         and_then (get_entries data) (\<lambda>entries.
           case lookup_entry entries sid of
             None \<Rightarrow> Inr (not_found sid)
           | Some entry \<Rightarrow> story_for env w sid entry))))"

definition getStory :: "env \<Rightarrow> world \<Rightarrow> args \<Rightarrow> exn + story tool_result" where
  "getStory env w a = try_catch (getStory_try env w a) caught"

section \<open>\<^verbatim>\<open>getStoryDocs\<close>\<close>

definition initial_docs :: "env \<Rightarrow> string option \<Rightarrow> story_entry \<Rightarrow> docs" where
  "initial_docs env sid entry =
     \<lparr>storyId = sid, title = e_title entry, name = e_name entry, entryType = e_type entry,
      docFramework = framework env, component = None,
      selector = None, template = None, componentCode = None, properties = None,
      componentDescription = None, imports = None, metaCode = None, storyExamples = None,
      usageExamples = None, mdxContent = None\<rparr>"

text \<open>The five assignments made when \<^verbatim>\<open>extractComponentDocs\<close> returned something.\<close>

definition assign_component_docs :: "component_docs option \<Rightarrow> docs \<Rightarrow> docs" where
  "assign_component_docs componentDocs d =
     (case componentDocs of
        None \<Rightarrow> d
      | Some cd \<Rightarrow>
          d\<lparr>selector := cd_selector cd,
            template := cd_template cd,
            componentCode := cd_componentCode cd,
            properties := cd_properties cd,
            componentDescription := cd_description cd\<rparr>)"

definition extensions :: "string list" where
  "extensions = ['''', ''.ts'', ''.tsx'', ''.js'', ''.jsx'', ''.vue'', ''.svelte'']"

text \<open>
  The loop over the extensions. Besides the \<^verbatim>\<open>docs\<close> object it returns the paths handed to
  \<^verbatim>\<open>fs.existsSync\<close>, in the order of the calls. The first path that exists ends the loop
  (\<^verbatim>\<open>break\<close>), whatever \<^verbatim>\<open>extractComponentDocs\<close> returned for it.
\<close>

fun extension_loop :: "world \<Rightarrow> string \<Rightarrow> string list \<Rightarrow> docs \<Rightarrow> exn + (string list \<times> docs)" where
  "extension_loop w componentFilePath [] d = Inr ([], d)"
| "extension_loop w componentFilePath (ext # exts) d =
     (let fullPath = componentFilePath @ ext
      in if existsSync w fullPath then
           and_then (extractComponentDocs w fullPath) (\<lambda>componentDocs.
             Inr ([fullPath], assign_component_docs componentDocs d))
         else
           and_then (extension_loop w componentFilePath exts d) (\<lambda>(probed, d').
             Inr (fullPath # probed, d')))"

text \<open>
  The block under \<^verbatim>\<open>// Get component info\<close>: the component's name from the story file, the
  import that mentions it, the base path of the component file, and the loop.
\<close>

definition component_info :: "world \<Rightarrow> string \<Rightarrow> string \<Rightarrow> docs \<Rightarrow> exn + (string list \<times> docs)" where
  "component_info w path content d =
     (case component_regex content of
        None \<Rightarrow> Inr ([], d)
      | Some c \<Rightarrow>
          (case import_regex c content of
             None \<Rightarrow> Inr ([], d\<lparr>component := Some c\<rparr>)
           | Some specifier \<Rightarrow>
               let storyDir = path_dirname path;
                   componentFilePath = path_resolve (cwd w) storyDir specifier
               in extension_loop w componentFilePath extensions (d\<lparr>component := Some c\<rparr>)))"

text \<open>
  \<^verbatim>\<open>obj[key] = value\<close> for a string \<^verbatim>\<open>value\<close>, on an object that started as \<^verbatim>\<open>{}\<close> and is
  kept as the list of its own properties: an existing property keeps its place, a new one
  goes last (the keys are names of variants, identifiers of the story file, and none is an
  array index, which would be listed before the others). The key \<^verbatim>\<open>__proto__\<close> is the exception: the assignment runs the setter
  inherited from \<^verbatim>\<open>Object.prototype\<close>, which ignores a string, and no property is added.
\<close>

definition obj_set :: "(string \<times> string) list \<Rightarrow> string \<Rightarrow> string \<Rightarrow> (string \<times> string) list" where
  "obj_set obj key v =
     (if key = ''__proto__'' then obj
      else if key \<in> set (map fst obj)
      then map (\<lambda>(k, x). if k = key then (k, v) else (k, x)) obj
      else obj @ [(key, v)])"

text \<open>
  \<^verbatim>\<open>Object.entries(storyExamples.stories).forEach(([name, story]) => ...)\<close>, filling
  \<^verbatim>\<open>docs.usageExamples\<close>.
\<close>

fun usage_loop :: "env \<Rightarrow> string \<Rightarrow> (string \<times> story_variant) list
    \<Rightarrow> (string \<times> string) list \<Rightarrow> exn + (string \<times> string) list" where
  "usage_loop env sel [] acc = Inr acc"
| "usage_loop env sel ((variant, story) # rest) acc =
     and_then (generateUsageExample env sel (v_args story) variant (framework env)) (\<lambda>example.
       usage_loop env sel rest (obj_set acc variant example))"

text \<open>The block under \<^verbatim>\<open>// Get story examples\<close>.\<close>

definition story_examples :: "env \<Rightarrow> world \<Rightarrow> string \<Rightarrow> docs \<Rightarrow> exn + docs" where
  "story_examples env w path d =
     and_then (extractStoryExamples w path) (\<lambda>examples.
       case examples of
         None \<Rightarrow> Inr d
       | Some se \<Rightarrow>
           let d1 = d\<lparr>imports := sf_imports se, metaCode := sf_meta se,
                       storyExamples := sf_stories se\<rparr>
           in (case (selector d1, sf_stories se) of
                 (Some sel, Some stories) \<Rightarrow>
                   if sel = [] then Inr d1
                   else
                     and_then (usage_loop env sel stories []) (\<lambda>examples.
                       Inr (d1\<lparr>usageExamples := Some examples\<rparr>))
               | _ \<Rightarrow> Inr d1))"

text \<open>The rest of the \<^verbatim>\<open>try\<close> block of \<^verbatim>\<open>getStoryDocs\<close>, once the entry is found.\<close>

definition docs_for :: "env \<Rightarrow> world \<Rightarrow> string option \<Rightarrow> story_entry \<Rightarrow> exn + docs tool_result" where
  "docs_for env w sid entry =
     (let d = initial_docs env sid entry
      in (case e_importPath entry of
            None \<Rightarrow> Inr (Success d)
          | Some importPath \<Rightarrow>
              if importPath = [] then Inr (Success d)
              else if \<not> endsWith importPath ''.mdx'' then
                let path = storyFilePath (projectDir env) importPath
                in if existsSync w path then
                     and_then (readFileSync w path) (\<lambda>content.
                     and_then (component_info w path content d) (\<lambda>(_, d1).
                     and_then (story_examples env w path d1) (\<lambda>d2.
                       Inr (Success d2))))
                   else Inr (Success d)
              else
                let mdxPath = storyFilePath (projectDir env) importPath
                in if existsSync w mdxPath then
                     and_then (readFileSync w mdxPath) (\<lambda>content.
                       Inr (Success (d\<lparr>mdxContent := Some content\<rparr>)))
                   else Inr (Success d)))"

definition getStoryDocs_try :: "env \<Rightarrow> world \<Rightarrow> args \<Rightarrow> exn + docs tool_result" where
  "getStoryDocs_try env w a =
     and_then (destructure a ''storyId'') (\<lambda>(sid, _).
     and_then (fetch w (storybookUrl env @ ''/index.json'')) (\<lambda>response.
       if \<not> ok response then Inr not_ready
       else
         and_then (json_body response) (\<lambda>data.
         and_then (get_entries data) (\<lambda>entries.
           case lookup_entry entries sid of
             None \<Rightarrow> Inr (not_found sid)
           | Some entry \<Rightarrow> docs_for env w sid entry))))"

definition getStoryDocs :: "env \<Rightarrow> world \<Rightarrow> args \<Rightarrow> exn + docs tool_result" where
  "getStoryDocs env w a = try_catch (getStoryDocs_try env w a) caught"

section \<open>The REST routes for one story\<close>

text \<open>
  \<^verbatim>\<open>GET /api/stories/:storyId\<close> and \<^verbatim>\<open>GET /api/docs/:storyId\<close> pick the status from the
  handler's result: 200 on success, 404 when \<^verbatim>\<open>result.error?.includes('not found')\<close>, 503
  otherwise.
\<close>

definition rest_status :: "'a tool_result \<Rightarrow> nat" where
  "rest_status r =
     (case r of
        Success _ \<Rightarrow> 200
      | Failure None _ \<Rightarrow> 503
      | Failure (Some err) _ \<Rightarrow> if str_includes err ''not found'' then 404 else 503)"

definition api_story :: "env \<Rightarrow> world \<Rightarrow> string \<Rightarrow> exn + (nat \<times> story tool_result)" where
  "api_story env w sid =
     and_then (getStory env w (ArgsObject (Some sid) None)) (\<lambda>r. Inr (rest_status r, r))"

definition api_docs :: "env \<Rightarrow> world \<Rightarrow> string \<Rightarrow> exn + (nat \<times> docs tool_result)" where
  "api_docs env w sid =
     and_then (getStoryDocs env w (ArgsObject (Some sid) None)) (\<lambda>r. Inr (rest_status r, r))"

section \<open>Worlds that serve an inventory\<close>

text \<open>
  The fetch of \<^verbatim>\<open>index.json\<close> answers with an ok response whose body parses to an object with
  the given \<^verbatim>\<open>entries\<close>.
\<close>

definition index_served :: "env \<Rightarrow> world \<Rightarrow> inventory option \<Rightarrow> bool" where
  "index_served env w entries =
     (fetch w (storybookUrl env @ ''/index.json'') = Inr (Response True (Inr (IndexObject entries))))"

section \<open>An example project\<close>

text \<open>
  A small Angular project under \<^verbatim>\<open>/proj\<close>: one story file with one variant, its component
  in \<^verbatim>\<open>button.component.ts\<close> (a compiled \<^verbatim>\<open>button.component.js\<close> lies beside it), and one
  MDX page.
\<close>

definition example_source :: string where
  "example_source =
     ''import { Meta } from '@storybook/angular'; '' @
     ''import { ButtonComponent } from './button.component'; '' @
     ''export default { title: 'Example/Button', component: ButtonComponent }; '' @
     ''export const Primary = { args: { label: 'Click me' } };''"

definition example_inventory :: inventory where
  "example_inventory =
     [(''example-button--primary'',
       \<lparr>e_id = Some ''example-button--primary'', e_name = Some ''Primary'',
        e_title = Some ''Example/Button'', e_kind = None,
        e_importPath = Some ''./src/button.stories.ts'', e_tags = Some [''story''],
        e_type = Some ''story''\<rparr>),
      (''intro--docs'',
       \<lparr>e_id = Some ''intro--docs'', e_name = Some ''Docs'',
        e_title = Some ''Intro'', e_kind = None,
        e_importPath = Some ''./src/intro.mdx'', e_tags = None,
        e_type = Some ''docs''\<rparr>)]"

definition example_component_docs :: component_docs where
  "example_component_docs =
     \<lparr>cd_selector = Some ''app-button'',
      cd_template = Some ''<button>{{ label }}</button>'',
      cd_componentCode = None,
      cd_properties = Some (JArr [JObj [(''name'', JStr ''label''), (''type'', JStr ''string'')]]),
      cd_description = Some ''A button.''\<rparr>"

definition example_story_file_doc :: story_file_doc where
  "example_story_file_doc =
     \<lparr>sf_imports = Some [''import { ButtonComponent } from './button.component';''],
      sf_meta = Some ''{ title: 'Example/Button', component: ButtonComponent }'',
      sf_stories = Some [(''Primary'', \<lparr>v_args = Some (JObj [(''label'', JStr ''Click me'')])\<rparr>)]\<rparr>"

definition example_world :: world where
  "example_world =
     \<lparr>fetch = (\<lambda>url. if url = ''http://localhost:6010/index.json''
                     then Inr (Response True (Inr (IndexObject (Some example_inventory))))
                     else Inl (Error ''fetch failed'')),
      existsSync = (\<lambda>p. p \<in> set [''/proj/src/button.stories.ts'', ''/proj/src/button.component.ts'',
                                  ''/proj/src/button.component.js'', ''/proj/src/intro.mdx'']),
      readFileSync = (\<lambda>p. if p = ''/proj/src/button.stories.ts'' then Inr example_source
                          else if p = ''/proj/src/intro.mdx'' then Inr ''# Intro''
                          else Inl (Error ''ENOENT: no such file or directory'')),
      cwd = ''/proj'',
      extractComponentDocs = (\<lambda>p. if p = ''/proj/src/button.component.ts''
                                  then Inr (Some example_component_docs) else Inr None),
      extractStoryExamples = (\<lambda>p. if p = ''/proj/src/button.stories.ts''
                                  then Inr (Some example_story_file_doc) else Inr None),
      parseStoryFile = (\<lambda>p sid dir. if p = ''/proj/src/button.stories.ts''
                                  then Inr (Some \<lparr>p_component = Some ''ButtonComponent'',
                                                  p_args = Some (JObj [(''label'', JStr ''Click me'')]),
                                                  p_argTypes = None,
                                                  p_componentDocs = Some example_component_docs\<rparr>)
                                  else Inr None)\<rparr>"

text \<open>A stand-in for the usage example generator, enough to tell its four arguments apart.\<close>

definition example_generator :: "string \<Rightarrow> json option \<Rightarrow> string \<Rightarrow> string \<Rightarrow> exn + string" where
  "example_generator sel a variant fw =
     Inr (''<'' @ sel @ ''></'' @ sel @ ''> // '' @ variant @ '', '' @ fw
            @ (if a = None then [] else '', with args''))"

definition example_env :: env where
  "example_env =
     \<lparr>storybookUrl = ''http://localhost:6010'', projectDir = ''/proj'',
      framework = ''angular'', generateUsageExample = example_generator\<rparr>"

text \<open>The same project while Storybook cannot be reached, and with an empty inventory.\<close>

definition offline_world :: world where
  "offline_world = example_world\<lparr>fetch := (\<lambda>url. Inl (Error ''connect ECONNREFUSED''))\<rparr>"

definition empty_world :: world where
  "empty_world =
     example_world\<lparr>fetch := (\<lambda>url. Inr (Response True (Inr (IndexObject (Some [])))))\<rparr>"

text \<open>The documentation that \<^verbatim>\<open>getStoryDocs\<close> returns for the story of the example project.\<close>

definition example_docs :: docs where
  "example_docs =
     \<lparr>storyId = Some ''example-button--primary'', title = Some ''Example/Button'',
      name = Some ''Primary'', entryType = Some ''story'', docFramework = ''angular'',
      component = Some ''ButtonComponent'',
      selector = Some ''app-button'',
      template = Some ''<button>{{ label }}</button>'',
      componentCode = None,
      properties = Some (JArr [JObj [(''name'', JStr ''label''), (''type'', JStr ''string'')]]),
      componentDescription = Some ''A button.'',
      imports = Some [''import { ButtonComponent } from './button.component';''],
      metaCode = Some ''{ title: 'Example/Button', component: ButtonComponent }'',
      storyExamples = Some [(''Primary'', \<lparr>v_args = Some (JObj [(''label'', JStr ''Click me'')])\<rparr>)],
      usageExamples = Some [(''Primary'', ''<app-button></app-button> // Primary, angular, with args'')],
      mdxContent = None\<rparr>"

text \<open>The project with the component file gone: only the story file is left.\<close>

definition no_component_world :: world where
  "no_component_world = example_world\<lparr>existsSync := (\<lambda>p. p = ''/proj/src/button.stories.ts'')\<rparr>"



text \<open>
  The project with a second variant in the story file, exported under the name
  \<^verbatim>\<open>__proto__\<close>, which the story mapping holds as an own property.
\<close>

definition proto_variant_source :: string where
  "proto_variant_source =
     ''import { Meta } from '@storybook/angular'; '' @
     ''import { ButtonComponent } from './button.component'; '' @
     ''export default { title: 'Example/Button', component: ButtonComponent }; '' @
     ''export const Primary = { args: { label: 'Click me' } }; '' @
     ''export const __proto__ = { args: {} };''"


text \<open>The project with a story extractor that throws \<^verbatim>\<open>null\<close>.\<close>

definition null_throwing_world :: world where
  "null_throwing_world = example_world\<lparr>extractStoryExamples := (\<lambda>p. Inl ThrownNull)\<rparr>"

section \<open>Notions used in the statements\<close>

text \<open>
  The entry's import path is not empty and does not end in \<^verbatim>\<open>.mdx\<close>, \<open>path\<close> is the story
  file's location, the file exists there and reading it gives \<open>content\<close>: the handler is
  past \<^verbatim>\<open>fs.readFileSync(storyFilePath, 'utf8')\<close>.
\<close>

definition reads_story_file ::
  "env \<Rightarrow> world \<Rightarrow> string option \<Rightarrow> story_entry \<Rightarrow> string \<Rightarrow> string \<Rightarrow> bool" where
  "reads_story_file env w sid entry path content =
     (case e_importPath entry of
        None \<Rightarrow> False
      | Some importPath \<Rightarrow>
          importPath \<noteq> [] \<and> \<not> endsWith importPath ''.mdx''
          \<and> path = storyFilePath (projectDir env) importPath
          \<and> existsSync w path
          \<and> readFileSync w path = Inr content)"

text \<open>
  Where \<^verbatim>\<open>docs.usageExamples\<close> comes from: it is there exactly when the selector is truthy and
  the story mapping is there, and then it is what the loop over the variants built.
\<close>

definition usage_examples_from :: "env \<Rightarrow> docs \<Rightarrow> bool" where
  "usage_examples_from env d =
     (case usageExamples d of
        None \<Rightarrow> \<not> (truthy_str (selector d) \<and> storyExamples d \<noteq> None)
      | Some examples \<Rightarrow>
          (case (selector d, storyExamples d) of
             (Some sel, Some stories) \<Rightarrow>
               sel \<noteq> [] \<and> usage_loop env sel stories [] = Inr examples
           | _ \<Rightarrow> False))"

text \<open>A path segment that normalisation leaves alone.\<close>

definition plain_segment :: "string \<Rightarrow> bool" where
  "plain_segment s = (s \<noteq> [] \<and> CHR ''/'' \<notin> set s \<and> s \<noteq> ''.'' \<and> s \<noteq> ''..'')"

section \<open>What is thrown at the handlers\<close>

text \<open>A computation that returns, or throws something other than \<^verbatim>\<open>null\<close> and \<^verbatim>\<open>undefined\<close>.\<close>

definition not_nullish :: "exn + 'a \<Rightarrow> bool" where
  "not_nullish r = (case r of Inl e \<Rightarrow> \<not> nullish e | Inr _ \<Rightarrow> True)"

text \<open>
  Nothing that the handlers call throws \<^verbatim>\<open>null\<close> or \<^verbatim>\<open>undefined\<close>: not the fetch, not
  \<^verbatim>\<open>response.json()\<close>, not the file system, and not the four functions of the parsers module.
\<close>

definition no_nullish_throw :: "env \<Rightarrow> world \<Rightarrow> bool" where
  "no_nullish_throw env w =
     ((\<forall>url. not_nullish (fetch w url))
      \<and> (\<forall>url response. fetch w url = Inr response \<longrightarrow> not_nullish (json_body response))
      \<and> (\<forall>p. not_nullish (readFileSync w p))
      \<and> (\<forall>p. not_nullish (extractComponentDocs w p))
      \<and> (\<forall>p. not_nullish (extractStoryExamples w p))
      \<and> (\<forall>p sid dir. not_nullish (parseStoryFile w p sid dir))
      \<and> (\<forall>sel a variant fw. not_nullish (generateUsageExample env sel a variant fw)))"

section \<open>The story extractor, from its specification\<close>

text \<open>
  \<^verbatim>\<open>extractStoryExamples\<close> is defined in the parsers module, which is not among the sources;
  the handlers above take it as a parameter of the world. What follows is the part of its
  contract that the specification gives for the variant mapping (section 4.4).
\<close>

text \<open>
  Modelled from the spec: a named variant export of a story file (the recognition inside the
  missing \<^verbatim>\<open>extractStoryExamples\<close>), read as \<^verbatim>\<open>export const Name\<close> at the start of \<open>s\<close>.
\<close>

definition export_name_at :: "string \<Rightarrow> string option" where
  "export_name_at s =
     (if prefix ''export const'' s then
        let after = drop 12 s;
            w = takeWhile is_word (dropWhile is_space after)
        in if after = [] \<or> \<not> is_space (hd after) \<or> w = [] then None else Some w
      else None)"

text \<open>
  Modelled from the spec: the names of the named variants of a story file, in declaration
  order (what the missing \<^verbatim>\<open>extractStoryExamples\<close> is to find).
\<close>

fun variant_names :: "string \<Rightarrow> string list" where
  "variant_names [] = []"
| "variant_names (c # cs) =
     (case export_name_at (c # cs) of
        Some v \<Rightarrow> v # variant_names cs
      | None \<Rightarrow> variant_names cs)"


section \<open>Sequencing and catching\<close>

lemma and_then_Inl [simp]: "and_then (Inl e) f = Inl e"
  by (simp add: and_then_def)

lemma and_then_Inr [simp]: "and_then (Inr x) f = f x"
  by (simp add: and_then_def)

lemma and_then_eq_Inr: "and_then m f = Inr y \<longleftrightarrow> (\<exists>x. m = Inr x \<and> f x = Inr y)"
  by (cases m) simp_all

lemma not_nullish_Inr [simp]: "not_nullish (Inr x)"
  by (simp add: not_nullish_def)

lemma not_nullish_Error [simp]: "not_nullish (Inl (Error m))"
  by (simp add: not_nullish_def nullish_def)

lemma not_nullish_and_then:
  "not_nullish m \<Longrightarrow> (\<And>x. not_nullish (f x)) \<Longrightarrow> not_nullish (and_then m f)"
  by (cases m) (simp_all add: not_nullish_def)

text \<open>
  A \<^verbatim>\<open>try\<close> block that throws neither \<^verbatim>\<open>null\<close> nor \<^verbatim>\<open>undefined\<close> always leaves the handler
  with a returned result, and what it throws decides the \<^verbatim>\<open>error\<close> of that result.
\<close>

lemma try_catch_not_nullish:
  assumes "not_nullish body"
  shows "\<exists>r. try_catch body caught = Inr r"
proof (cases body)
  case (Inl e)
  with assms show ?thesis
    by (cases e) (simp_all add: try_catch_def caught_def not_nullish_def nullish_def)
next
  case (Inr r)
  then show ?thesis by (simp add: try_catch_def)
qed

lemma try_catch_thrown:
  assumes "not_nullish body" and "body = Inl e"
  shows "try_catch body caught = Inr (Failure (case e of Error m \<Rightarrow> Some m | _ \<Rightarrow> None) None)"
  using assms
  by (cases e) (simp_all add: try_catch_def caught_def not_nullish_def nullish_def)

lemma caught_Success [simp]: "caught e \<noteq> Inr (Success x)"
  by (cases e) (simp_all add: caught_def)

section \<open>What the \<^verbatim>\<open>try\<close> blocks throw\<close>

lemma destructure_not_nullish: "not_nullish (destructure a prop)"
  by (cases a) (simp_all add: destructure_def)

lemma get_entries_not_nullish: "not_nullish (get_entries data)"
  by (cases data) (simp_all add: get_entries_def)

lemma extension_loop_not_nullish:
  assumes "\<forall>p. not_nullish (extractComponentDocs w p)"
  shows "not_nullish (extension_loop w base exts d)"
proof (induction exts)
  case Nil
  show ?case by simp
next
  case (Cons ext exts)
  show ?case
  proof (cases "existsSync w (base @ ext)")
    case True
    have "not_nullish (and_then (extractComponentDocs w (base @ ext)) (\<lambda>componentDocs.
             Inr ([base @ ext], assign_component_docs componentDocs d)))"
      using assms by (intro not_nullish_and_then) simp_all
    with True show ?thesis by (simp add: Let_def)
  next
    case False
    have "not_nullish (and_then (extension_loop w base exts d) (\<lambda>(probed, d').
             Inr ((base @ ext) # probed, d')))"
      using Cons.IH by (intro not_nullish_and_then) (simp_all add: split_def)
    with False show ?thesis by (simp add: Let_def)
  qed
qed

lemma component_info_not_nullish:
  assumes "\<forall>p. not_nullish (extractComponentDocs w p)"
  shows "not_nullish (component_info w path content d)"
  using extension_loop_not_nullish [OF assms]
  by (simp add: component_info_def Let_def split: option.splits)

lemma usage_loop_not_nullish:
  assumes "\<forall>sel a variant fw. not_nullish (generateUsageExample env sel a variant fw)"
  shows "not_nullish (usage_loop env sel stories acc)"
proof (induction stories arbitrary: acc)
  case Nil
  show ?case by simp
next
  case (Cons s stories)
  obtain variant story where s: "s = (variant, story)" by (cases s)
  have "not_nullish (and_then (generateUsageExample env sel (v_args story) variant (framework env))
          (\<lambda>example. usage_loop env sel stories (obj_set acc variant example)))"
    using assms Cons.IH by (intro not_nullish_and_then) simp_all
  with s show ?case by simp
qed

lemma story_examples_not_nullish:
  assumes "\<forall>p. not_nullish (extractStoryExamples w p)"
    and "\<forall>sel a variant fw. not_nullish (generateUsageExample env sel a variant fw)"
  shows "not_nullish (story_examples env w path d)"
  unfolding story_examples_def
proof (intro not_nullish_and_then)
  show "not_nullish (extractStoryExamples w path)"
    using assms(1) by simp
next
  fix examples
  have u: "not_nullish (and_then (usage_loop env sel stories []) f)"
    if "\<And>x. not_nullish (f x)" for sel stories and f :: "(string \<times> string) list \<Rightarrow> exn + docs"
    using usage_loop_not_nullish [OF assms(2)] that by (intro not_nullish_and_then) simp_all
  show "not_nullish
          (case examples of
             None \<Rightarrow> Inr d
           | Some se \<Rightarrow>
               let d1 = d\<lparr>imports := sf_imports se, metaCode := sf_meta se,
                           storyExamples := sf_stories se\<rparr>
               in (case (selector d1, sf_stories se) of
                     (Some sel, Some stories) \<Rightarrow>
                       if sel = [] then Inr d1
                       else
                         and_then (usage_loop env sel stories []) (\<lambda>examples.
                           Inr (d1\<lparr>usageExamples := Some examples\<rparr>))
                   | _ \<Rightarrow> Inr d1))"
    by (auto simp add: Let_def intro!: u split: option.splits)
qed

lemma docs_for_not_nullish:
  assumes "no_nullish_throw env w"
  shows "not_nullish (docs_for env w sid entry)"
proof -
  have r: "\<forall>p. not_nullish (readFileSync w p)"
    and c: "\<forall>p. not_nullish (extractComponentDocs w p)"
    and x: "\<forall>p. not_nullish (extractStoryExamples w p)"
    and g: "\<forall>sel a variant fw. not_nullish (generateUsageExample env sel a variant fw)"
    using assms by (simp_all add: no_nullish_throw_def)
  have story_file: "not_nullish
      (and_then (readFileSync w path) (\<lambda>content.
       and_then (component_info w path content d) (\<lambda>(_, d1).
       and_then (story_examples env w path d1) (\<lambda>d2. Inr (Success d2)))))" for path d
    using r component_info_not_nullish [OF c] story_examples_not_nullish [OF x g]
    by (intro not_nullish_and_then) (simp_all add: split_def not_nullish_and_then)
  have mdx: "not_nullish
      (and_then (readFileSync w path) (\<lambda>content. Inr (Success (d\<lparr>mdxContent := Some content\<rparr>))))"
    for path d
    using r by (intro not_nullish_and_then) simp_all
  show ?thesis
    by (simp add: docs_for_def Let_def story_file mdx split: option.splits)
qed

lemma story_for_not_nullish:
  assumes "no_nullish_throw env w"
  shows "not_nullish (story_for env w sid entry)"
proof -
  have p: "\<forall>p sid dir. not_nullish (parseStoryFile w p sid dir)"
    using assms by (simp add: no_nullish_throw_def)
  have "not_nullish
      (and_then (parseStoryFile w path sid dir) (\<lambda>parsed.
         case parsed of
           None \<Rightarrow> Inr (Success (story_of entry))
         | Some ps \<Rightarrow> Inr (Success (add_parsed ps (story_of entry)))))" for path dir
    using p by (intro not_nullish_and_then) (simp_all split: option.splits)
  then show ?thesis
    by (simp add: story_for_def split: option.splits)
qed

text \<open>The common start of the four \<^verbatim>\<open>try\<close> blocks: the fetch, the ok test and the parsed index.\<close>

lemma with_index_not_nullish:
  assumes "no_nullish_throw env w"
    and "\<And>entries. not_nullish (f entries)"
    and "not_nullish early"
  shows "not_nullish
      (and_then (fetch w url) (\<lambda>response.
         if \<not> ok response then early
         else and_then (json_body response) (\<lambda>data. and_then (get_entries data) f)))"
proof (cases "fetch w url")
  case (Inl e)
  have "not_nullish (fetch w url)"
    using assms(1) by (simp add: no_nullish_throw_def)
  with Inl have "\<not> nullish e"
    by (simp add: not_nullish_def)
  with Inl show ?thesis by (simp add: not_nullish_def)
next
  case (Inr response)
  have "not_nullish (json_body response)"
    using assms(1) Inr by (auto simp add: no_nullish_throw_def)
  then have "not_nullish (and_then (json_body response) (\<lambda>data. and_then (get_entries data) f))"
    using assms(2) get_entries_not_nullish
    by (intro not_nullish_and_then) simp_all
  with Inr assms(3) show ?thesis by simp
qed

lemma listStories_try_not_nullish:
  assumes "no_nullish_throw env w"
  shows "not_nullish (listStories_try env w a)"
  unfolding listStories_try_def
  by (rule with_index_not_nullish [OF assms]) (simp_all add: Let_def)

lemma getStoriesByKind_try_not_nullish:
  assumes "no_nullish_throw env w"
  shows "not_nullish (getStoriesByKind_try env w a)"
  unfolding getStoriesByKind_try_def
proof (intro not_nullish_and_then destructure_not_nullish)
  fix x :: "string option \<times> string option"
  show "not_nullish
     (case x of
      (uu_, kind) \<Rightarrow>
        and_then (fetch w (storybookUrl env @ ''/index.json''))
         (\<lambda>response.
             if \<not> ok response then Inr not_ready
             else and_then (json_body response)
                   (\<lambda>data.
                       and_then (get_entries data)
                        (\<lambda>entries.
                            let stories =
                                  map kind_summary_of
                                   (filter (\<lambda>entry. e_kind entry = kind \<or> e_title entry = kind)
                                     (entry_values entries))
                            in Inr (Success
                                     \<lparr>kl_count = length stories, kl_kind = kind,
                                        kl_stories = stories\<rparr>)))))"
    unfolding split_def
    by (rule with_index_not_nullish [OF assms]) (simp_all add: Let_def)
qed

lemma getStory_try_not_nullish:
  assumes "no_nullish_throw env w"
  shows "not_nullish (getStory_try env w a)"
  unfolding getStory_try_def
proof (intro not_nullish_and_then destructure_not_nullish)
  fix x :: "string option \<times> string option"
  show "not_nullish
     (case x of
      (sid, uu_) \<Rightarrow>
        and_then (fetch w (storybookUrl env @ ''/index.json''))
         (\<lambda>response.
             if \<not> ok response then Inr not_ready
             else and_then (json_body response)
                   (\<lambda>data.
                       and_then (get_entries data)
                        (\<lambda>entries.
                            case lookup_entry entries sid of
                              None \<Rightarrow> Inr (not_found sid)
                            | Some entry \<Rightarrow> story_for env w sid entry))))"
    unfolding split_def
    by (rule with_index_not_nullish [OF assms])
       (simp_all add: story_for_not_nullish [OF assms] split: option.splits)
qed

lemma getStoryDocs_try_not_nullish:
  assumes "no_nullish_throw env w"
  shows "not_nullish (getStoryDocs_try env w a)"
  unfolding getStoryDocs_try_def
proof (intro not_nullish_and_then destructure_not_nullish)
  fix x :: "string option \<times> string option"
  show "not_nullish
     (case x of
      (sid, uu_) \<Rightarrow>
        and_then (fetch w (storybookUrl env @ ''/index.json''))
         (\<lambda>response.
             if \<not> ok response then Inr not_ready
             else and_then (json_body response)
                   (\<lambda>data.
                       and_then (get_entries data)
                        (\<lambda>entries.
                            case lookup_entry entries sid of
                              None \<Rightarrow> Inr (not_found sid)
                            | Some entry \<Rightarrow> docs_for env w sid entry))))"
    unfolding split_def
    by (rule with_index_not_nullish [OF assms])
       (simp_all add: docs_for_not_nullish [OF assms] split: option.splits)
qed

section \<open>The handlers catch what is thrown\<close>

text \<open>
  Claim C10. Provided that nothing the handlers call throws \<^verbatim>\<open>null\<close> or \<^verbatim>\<open>undefined\<close> (the
  fetch, \<^verbatim>\<open>response.json()\<close>, the file system, the parsers), each of the four handlers
  \<^verbatim>\<open>listStories\<close>, \<^verbatim>\<open>getStory\<close>, \<^verbatim>\<open>getStoryDocs\<close> and \<^verbatim>\<open>getStoriesByKind\<close> returns a result
  object (which carries the boolean \<^verbatim>\<open>success\<close>) for every argument and never throws:
  whenever the body of its \<^verbatim>\<open>try\<close> throws, the handler returns \<^verbatim>\<open>success: false\<close> with the
  thrown object's message as \<^verbatim>\<open>error\<close> (undefined for a thrown value without a message).
\<close>

theorem handlers_never_throw:
  assumes "no_nullish_throw env w"
  shows "(\<exists>r. listStories env w a = Inr r)
   \<and> (\<exists>r. getStory env w a = Inr r)
   \<and> (\<exists>r. getStoryDocs env w a = Inr r)
   \<and> (\<exists>r. getStoriesByKind env w a = Inr r)
   \<and> (\<forall>e. listStories_try env w a = Inl e \<longrightarrow>
          listStories env w a
            = Inr (Failure (case e of Error m \<Rightarrow> Some m | _ \<Rightarrow> None) None)
          \<and> \<not> success (Failure (case e of Error m \<Rightarrow> Some m | _ \<Rightarrow> None) None
                          :: story_listing tool_result))
   \<and> (\<forall>e. getStory_try env w a = Inl e \<longrightarrow>
          getStory env w a = Inr (Failure (case e of Error m \<Rightarrow> Some m | _ \<Rightarrow> None) None))
   \<and> (\<forall>e. getStoryDocs_try env w a = Inl e \<longrightarrow>
          getStoryDocs env w a = Inr (Failure (case e of Error m \<Rightarrow> Some m | _ \<Rightarrow> None) None))
   \<and> (\<forall>e. getStoriesByKind_try env w a = Inl e \<longrightarrow>
          getStoriesByKind env w a
            = Inr (Failure (case e of Error m \<Rightarrow> Some m | _ \<Rightarrow> None) None))"
proof -
  note l = listStories_try_not_nullish [OF assms, of a]
  note s = getStory_try_not_nullish [OF assms, of a]
  note d = getStoryDocs_try_not_nullish [OF assms, of a]
  note k = getStoriesByKind_try_not_nullish [OF assms, of a]
  show ?thesis
    unfolding listStories_def getStory_def getStoryDocs_def getStoriesByKind_def
    using try_catch_not_nullish [OF l] try_catch_not_nullish [OF s]
      try_catch_not_nullish [OF d] try_catch_not_nullish [OF k]
      try_catch_thrown [OF l] try_catch_thrown [OF s]
      try_catch_thrown [OF d] try_catch_thrown [OF k]
    by (simp add: success_def)
qed

lemma offline_no_nullish: "no_nullish_throw example_env offline_world"
  by (simp add: no_nullish_throw_def offline_world_def example_world_def example_env_def
        example_generator_def)

lemma offline_listStories_try:
  "listStories_try example_env offline_world ArgsUndefined = Inl (Error ''connect ECONNREFUSED'')"
  by (simp add: listStories_try_def offline_world_def)

lemma offline_getStory_try:
  "getStory_try example_env offline_world ArgsUndefined
     = Inl (Error ''Cannot destructure property 'storyId' of 'args' as it is undefined.'')"
  by (simp add: getStory_try_def destructure_def)

theorem handlers_never_throw_witness:
  "listStories example_env offline_world ArgsUndefined
     = Inr (Failure (Some ''connect ECONNREFUSED'') None)
   \<and> getStory example_env offline_world ArgsUndefined
     = Inr (Failure (Some ''Cannot destructure property 'storyId' of 'args' as it is undefined.'')
              None)"
  using handlers_never_throw [OF offline_no_nullish, of ArgsUndefined]
  by (simp add: offline_listStories_try offline_getStory_try)

text \<open>
  The proviso is needed: when the story extractor throws \<^verbatim>\<open>null\<close>, the \<^verbatim>\<open>catch\<close> block of
  \<^verbatim>\<open>getStoryDocs\<close> throws in turn, and the handler does not return.
\<close>

lemma thrown_null_escapes:
  assumes "index_served env w entries" and "lookup_entry entries sid = Some entry"
    and "e_importPath entry = Some importPath" and "importPath \<noteq> []"
    and "\<not> endsWith importPath ''.mdx''"
    and "existsSync w (storyFilePath (projectDir env) importPath)"
    and "readFileSync w (storyFilePath (projectDir env) importPath) = Inr content"
    and "component_info w (storyFilePath (projectDir env) importPath) content
           (initial_docs env sid entry) = Inr (probed, d1)"
    and "extractStoryExamples w (storyFilePath (projectDir env) importPath) = Inl ThrownNull"
  shows "getStoryDocs env w (ArgsObject sid k)
           = Inl (Error ''Cannot read properties of null (reading 'message')'')"
  using assms
  by (simp add: getStoryDocs_def getStoryDocs_try_def index_served_def destructure_def
      get_entries_def docs_for_def Let_def story_examples_def try_catch_def caught_def)

section \<open>Stories that are not in the inventory\<close>

lemma getStory_served:
  "index_served env w entries \<Longrightarrow>
   getStory_try env w (ArgsObject sid k) =
     (case lookup_entry entries sid of
        None \<Rightarrow> Inr (not_found sid)
      | Some entry \<Rightarrow> story_for env w sid entry)"
  by (simp add: index_served_def getStory_try_def destructure_def get_entries_def)

lemma getStoryDocs_served:
  "index_served env w entries \<Longrightarrow>
   getStoryDocs_try env w (ArgsObject sid k) =
     (case lookup_entry entries sid of
        None \<Rightarrow> Inr (not_found sid)
      | Some entry \<Rightarrow> docs_for env w sid entry)"
  by (simp add: index_served_def getStoryDocs_try_def destructure_def get_entries_def)

lemma getStoryDocs_Inr:
  "getStoryDocs_try env w a = Inr r \<Longrightarrow> getStoryDocs env w a = Inr r"
  by (simp add: getStoryDocs_def try_catch_def)

lemma getStoryDocs_try_success:
  "getStoryDocs env w a = Inr (Success d) \<Longrightarrow> getStoryDocs_try env w a = Inr (Success d)"
  by (cases "getStoryDocs_try env w a") (simp_all add: getStoryDocs_def try_catch_def caught_Success)

text \<open>
  The not-found result is told apart from the other failures by its text: the REST routes
  answer it with 404, and a Storybook that is not ready with 503.
\<close>

lemma not_found_includes:
  "str_includes (''Story \"'' @ to_string sid @ ''\" not found'') ''not found''"
proof -
  have "sublist ''not found'' ((''Story \"'' @ to_string sid @ ''\" '') @ ''not found'')"
    by (rule sublist_append_leftI)
  then show ?thesis by (simp add: str_includes_def)
qed

lemma rest_status_not_found: "rest_status (not_found sid) = 404"
  using not_found_includes [of sid] by (simp add: rest_status_def not_found_def)

lemma rest_status_not_ready: "rest_status not_ready = 503"
  by (simp add: rest_status_def not_ready_def str_includes_def sublist_code)

text \<open>
  An identifier for which \<^verbatim>\<open>entries[storyId]\<close> is undefined gets the not-found result from
  both handlers, as a returned value.
\<close>

lemma absent_story_not_found:
  assumes "index_served env w entries" and "lookup_entry entries sid = None"
  shows "getStory env w (ArgsObject sid k) = Inr (not_found sid)"
    and "getStoryDocs env w (ArgsObject sid k) = Inr (not_found sid)"
  using assms
  by (simp_all add: getStory_def getStoryDocs_def getStory_served getStoryDocs_served try_catch_def)

lemma empty_world_served: "index_served example_env empty_world (Some [])"
  by (simp add: index_served_def empty_world_def example_env_def)

text \<open>
  Claim C5 says that every story identifier absent from the inventory gets the not-found
  result (404 over REST) from \<^verbatim>\<open>getStory\<close> and \<^verbatim>\<open>getStoryDocs\<close>. The handlers test
  \<^verbatim>\<open>data.entries?.[storyId]\<close>, which also finds the properties that every object inherits.
  With an empty inventory, the identifier \<^verbatim>\<open>constructor\<close> is absent from the inventory, and
  both handlers answer with success (200 over REST), the story being made from the function
  \<^verbatim>\<open>Object\<close>.
\<close>

theorem inherited_key_found:
  "map_of ([] :: inventory) ''constructor'' = None
   \<and> api_story example_env empty_world ''constructor''
       = Inr (200, Success (story_of (blank_entry\<lparr>e_name := Some ''Object''\<rparr>)))
   \<and> api_docs example_env empty_world ''constructor''
       = Inr (200, Success (initial_docs example_env (Some ''constructor'')
                              (blank_entry\<lparr>e_name := Some ''Object''\<rparr>)))"
proof -
  have l: "lookup_entry (Some []) (Some ''constructor'')
             = Some (blank_entry\<lparr>e_name := Some ''Object''\<rparr>)"
    by (simp add: lookup_entry_def to_string_def inherited_property_def)
  have s: "getStory example_env empty_world (ArgsObject (Some ''constructor'') None)
             = Inr (Success (story_of (blank_entry\<lparr>e_name := Some ''Object''\<rparr>)))"
    by (simp add: getStory_def try_catch_def getStory_served [OF empty_world_served] l
          story_for_def blank_entry_def)
  have d: "getStoryDocs example_env empty_world (ArgsObject (Some ''constructor'') None)
             = Inr (Success (initial_docs example_env (Some ''constructor'')
                              (blank_entry\<lparr>e_name := Some ''Object''\<rparr>)))"
    by (simp add: getStoryDocs_def try_catch_def getStoryDocs_served [OF empty_world_served] l
          docs_for_def blank_entry_def)
  show ?thesis
    by (simp add: api_story_def api_docs_def s d rest_status_def)
qed

section \<open>Where the story file is\<close>

lemma split_slash_not_Nil [simp]: "split_slash s \<noteq> []"
  by (induction s) (auto split: list.splits)

lemma split_slash_no_slash: "CHR ''/'' \<notin> set s \<Longrightarrow> split_slash s = [s]"
  by (induction s) auto

lemma split_slash_append: "split_slash (a @ CHR ''/'' # b) = split_slash a @ split_slash b"
proof (induction a)
  case Nil
  show ?case by simp
next
  case (Cons c a)
  obtain s ss where "split_slash a = s # ss"
    using split_slash_not_Nil [of a] by (cases "split_slash a") auto
  with Cons show ?case by simp
qed

lemma join_slash_Cons:
  "ss \<noteq> [] \<Longrightarrow> join_slash (s # ss) = s @ CHR ''/'' # join_slash ss"
  by (cases ss) simp_all

lemma join_slash_append:
  "xs \<noteq> [] \<Longrightarrow> ys \<noteq> [] \<Longrightarrow> join_slash (xs @ ys) = join_slash xs @ CHR ''/'' # join_slash ys"
proof (induction xs)
  case Nil
  then show ?case by simp
next
  case (Cons x xs)
  show ?case
  proof (cases "xs = []")
    case True
    with Cons.prems show ?thesis by (simp add: join_slash_Cons)
  next
    case False
    with Cons show ?thesis by (simp add: join_slash_Cons)
  qed
qed

lemma split_join_plain:
  "segs \<noteq> [] \<Longrightarrow> list_all plain_segment segs \<Longrightarrow> split_slash (join_slash segs) = segs"
proof (induction segs)
  case Nil
  then show ?case by simp
next
  case (Cons s segs)
  have s: "split_slash s = [s]"
    using Cons.prems(2) by (simp add: plain_segment_def split_slash_no_slash)
  show ?case
  proof (cases "segs = []")
    case True
    with s show ?thesis by simp
  next
    case False
    with Cons s show ?thesis
      by (simp add: join_slash_Cons split_slash_append)
  qed
qed

lemma join_plain_not_Nil:
  "segs \<noteq> [] \<Longrightarrow> list_all plain_segment segs \<Longrightarrow> join_slash segs \<noteq> []"
  by (cases segs rule: join_slash.cases) (simp_all add: plain_segment_def)

lemma last_join_plain:
  "segs \<noteq> [] \<Longrightarrow> list_all plain_segment segs \<Longrightarrow> last (join_slash segs) \<noteq> CHR ''/''"
proof (induction segs)
  case Nil
  then show ?case by simp
next
  case (Cons s segs)
  show ?case
  proof (cases "segs = []")
    case True
    with Cons.prems show ?thesis
      by (auto simp add: plain_segment_def dest: last_in_set)
  next
    case False
    with Cons have "last (join_slash segs) \<noteq> CHR ''/''" and "join_slash segs \<noteq> []"
      by (simp_all add: join_plain_not_Nil)
    with False show ?thesis by (simp add: join_slash_Cons)
  qed
qed

lemma normalize_plain:
  "list_all plain_segment segs \<Longrightarrow> foldl (normalize_step b) acc segs = acc @ segs"
  by (induction segs arbitrary: acc) (simp_all add: normalize_step_def plain_segment_def)

lemma not_dot_slash_plain:
  assumes "segs \<noteq> []" and "list_all plain_segment segs"
  shows "\<not> prefix ''./'' (join_slash segs)"
proof
  assume p: "prefix ''./'' (join_slash segs)"
  obtain s ss where segs: "segs = s # ss" using assms(1) by (cases segs) auto
  have s: "s \<noteq> []" "CHR ''/'' \<notin> set s" "s \<noteq> ''.''"
    using assms(2) segs by (simp_all add: plain_segment_def)
  then obtain c cs where c: "s = c # cs" by (cases s) auto
  show False
  proof (cases cs)
    case Nil
    with p segs c s show ?thesis
      by (cases ss) (simp_all add: join_slash_Cons)
  next
    case (Cons c' cs')
    with p segs c s show ?thesis
      by (cases ss) (simp_all add: join_slash_Cons)
  qed
qed

lemma join_append_plain_not_Nil:
  assumes "segs \<noteq> []" and "list_all plain_segment segs"
  shows "join_slash (xs @ segs) \<noteq> []"
proof (cases "xs = []")
  case True
  with assms show ?thesis by (simp add: join_plain_not_Nil)
next
  case False
  with assms show ?thesis by (simp add: join_slash_append)
qed

lemma last_join_append_plain:
  assumes "segs \<noteq> []" and "list_all plain_segment segs"
  shows "last (join_slash (xs @ segs)) \<noteq> CHR ''/''"
proof (cases "xs = []")
  case True
  with assms show ?thesis by (simp add: last_join_plain)
next
  case False
  with assms last_join_plain [OF assms] join_plain_not_Nil [OF assms]
  show ?thesis by (simp add: join_slash_append)
qed

text \<open>
  \<^verbatim>\<open>path.join\<close> of any non-empty root and a relative path of plain segments: the segments
  that normalisation leaves of the root, then the segments of the relative path.
\<close>

lemma path_join_plain:
  assumes "root \<noteq> []" and "segs \<noteq> []" and "list_all plain_segment segs"
  shows "path_join root (join_slash segs)
           = (if isAbsolute root then ''/'' else [])
             @ join_slash (foldl (normalize_step (\<not> isAbsolute root)) [] (split_slash root) @ segs)"
proof -
  let ?p = "root @ ''/'' @ join_slash segs"
  let ?kept = "foldl (normalize_step (\<not> isAbsolute root)) [] (split_slash root)"
  have a: "isAbsolute ?p = isAbsolute root"
    using assms(1) by (cases root) (simp_all add: isAbsolute_def)
  have sp: "split_slash ?p = split_slash root @ segs"
    using assms by (simp add: split_slash_append split_join_plain)
  have n: "normalizeString ?p (\<not> isAbsolute ?p) = join_slash (?kept @ segs)"
    unfolding normalizeString_def sp a
    using assms by (simp add: normalize_plain)
  have l: "last ?p \<noteq> CHR ''/''"
    using last_join_plain [OF assms(2,3)] join_plain_not_Nil [OF assms(2,3)] by simp
  have ne: "join_slash (?kept @ segs) \<noteq> []"
    using assms by (simp add: join_append_plain_not_Nil)
  have "path_normalize ?p = (if isAbsolute root then ''/'' else []) @ join_slash (?kept @ segs)"
    using n l ne a by (simp add: path_normalize_def Let_def)
  then show ?thesis
    using assms by (simp add: path_join_def join_plain_not_Nil)
qed

lemma storyFilePath_plain:
  assumes "root \<noteq> []" and "segs \<noteq> []" and "list_all plain_segment segs"
    and "importPath = ''./'' @ join_slash segs \<or> importPath = join_slash segs"
  shows "storyFilePath root importPath
           = (if isAbsolute root then ''/'' else [])
             @ join_slash (foldl (normalize_step (\<not> isAbsolute root)) [] (split_slash root) @ segs)"
  using path_join_plain [OF assms(1-3)] not_dot_slash_plain [OF assms(2,3)] assms(4)
  by (auto simp add: storyFilePath_def cleanPath_def)

lemma kept_of_normalised_root:
  assumes "dirs \<noteq> []" and "list_all plain_segment dirs"
  shows "foldl (normalize_step b) [] (split_slash (''/'' @ join_slash dirs)) = dirs"
proof -
  have "split_slash (''/'' @ join_slash dirs) = [] # dirs"
    using assms split_slash_append [of "[]" "join_slash dirs"] by (simp add: split_join_plain)
  then show ?thesis
    using assms by (simp add: normalize_step_def normalize_plain)
qed

lemma storyFilePath_normalised_root:
  assumes "dirs \<noteq> []" and "list_all plain_segment dirs"
    and "segs \<noteq> []" and "list_all plain_segment segs"
    and "importPath = ''./'' @ join_slash segs \<or> importPath = join_slash segs"
  shows "storyFilePath (''/'' @ join_slash dirs) importPath
           = (''/'' @ join_slash dirs) @ ''/'' @ join_slash segs"
proof -
  have "storyFilePath (''/'' @ join_slash dirs) importPath = ''/'' @ join_slash (dirs @ segs)"
    using storyFilePath_plain [OF _ assms(3,4,5), of "''/'' @ join_slash dirs"]
      kept_of_normalised_root [OF assms(1,2)]
    by (simp add: isAbsolute_def)
  then show ?thesis
    using assms by (simp add: join_slash_append)
qed

text \<open>
  Claim C8. For every story entry with a (non-empty) import path, the story file's location
  is \<^verbatim>\<open>path.join\<close> of the project root and the import path without one leading \<^verbatim>\<open>./\<close>.
  When the inventory is served and has the entry, \<^verbatim>\<open>getStory\<close> and \<^verbatim>\<open>getStoryDocs\<close> run their
  \<^verbatim>\<open>try\<close> blocks on it: \<^verbatim>\<open>getStory\<close> hands this location to \<^verbatim>\<open>parseStoryFile\<close>; \<^verbatim>\<open>getStoryDocs\<close> tests whether a file
  exists there and, if so, reads that file and extracts from it (or returns its contents,
  for an MDX page). For any non-empty root and an import path \<^verbatim>\<open>./s1/.../sn\<close> or
  \<^verbatim>\<open>s1/.../sn\<close> (segments that are not empty, \<^verbatim>\<open>.\<close> or \<^verbatim>\<open>..\<close>), the location is the normalised
  root followed by \<^verbatim>\<open>s1/.../sn\<close>; for a root \<^verbatim>\<open>/d1/.../dm\<close> it is the root, a slash and
  \<^verbatim>\<open>s1/.../sn\<close>.
\<close>

theorem story_file_location:
  assumes "e_importPath entry = Some importPath" and "importPath \<noteq> []"
  shows "storyFilePath (projectDir env) importPath
           = path_join (projectDir env)
               (if prefix ''./'' importPath then drop 2 importPath else importPath)
     \<and> story_for env w sid entry
           = and_then
               (parseStoryFile w (storyFilePath (projectDir env) importPath) sid (projectDir env))
               (\<lambda>parsed.
                  case parsed of
                    None \<Rightarrow> Inr (Success (story_of entry))
                  | Some ps \<Rightarrow> Inr (Success (add_parsed ps (story_of entry))))
     \<and> docs_for env w sid entry
           = (if existsSync w (storyFilePath (projectDir env) importPath) then
                and_then (readFileSync w (storyFilePath (projectDir env) importPath)) (\<lambda>content.
                  if endsWith importPath ''.mdx'' then
                    Inr (Success ((initial_docs env sid entry)\<lparr>mdxContent := Some content\<rparr>))
                  else
                    and_then
                      (component_info w (storyFilePath (projectDir env) importPath) content
                         (initial_docs env sid entry))
                      (\<lambda>(_, d1).
                         and_then
                           (story_examples env w (storyFilePath (projectDir env) importPath) d1)
                           (\<lambda>d2. Inr (Success d2))))
              else Inr (Success (initial_docs env sid entry)))
     \<and> (\<forall>entries k. index_served env w entries \<and> lookup_entry entries sid = Some entry \<longrightarrow>
          getStory env w (ArgsObject sid k) = try_catch (story_for env w sid entry) caught
          \<and> getStoryDocs env w (ArgsObject sid k) = try_catch (docs_for env w sid entry) caught)
     \<and> (\<forall>segs. projectDir env \<noteq> [] \<and> segs \<noteq> [] \<and> list_all plain_segment segs
            \<and> (importPath = ''./'' @ join_slash segs \<or> importPath = join_slash segs) \<longrightarrow>
          storyFilePath (projectDir env) importPath
            = (if isAbsolute (projectDir env) then ''/'' else [])
              @ join_slash
                  (foldl (normalize_step (\<not> isAbsolute (projectDir env))) []
                     (split_slash (projectDir env)) @ segs))
     \<and> (\<forall>dirs segs. dirs \<noteq> [] \<and> list_all plain_segment dirs
            \<and> projectDir env = ''/'' @ join_slash dirs
            \<and> segs \<noteq> [] \<and> list_all plain_segment segs
            \<and> (importPath = ''./'' @ join_slash segs \<or> importPath = join_slash segs) \<longrightarrow>
          storyFilePath (projectDir env) importPath
            = projectDir env @ ''/'' @ join_slash segs)"
proof -
  have a: "storyFilePath (projectDir env) importPath
           = path_join (projectDir env)
               (if prefix ''./'' importPath then drop 2 importPath else importPath)"
    by (simp add: storyFilePath_def cleanPath_def)
  have b: "story_for env w sid entry
           = and_then
               (parseStoryFile w (storyFilePath (projectDir env) importPath) sid (projectDir env))
               (\<lambda>parsed.
                  case parsed of
                    None \<Rightarrow> Inr (Success (story_of entry))
                  | Some ps \<Rightarrow> Inr (Success (add_parsed ps (story_of entry))))"
    using assms by (simp add: story_for_def)
  have c: "docs_for env w sid entry
           = (if existsSync w (storyFilePath (projectDir env) importPath) then
                and_then (readFileSync w (storyFilePath (projectDir env) importPath)) (\<lambda>content.
                  if endsWith importPath ''.mdx'' then
                    Inr (Success ((initial_docs env sid entry)\<lparr>mdxContent := Some content\<rparr>))
                  else
                    and_then
                      (component_info w (storyFilePath (projectDir env) importPath) content
                         (initial_docs env sid entry))
                      (\<lambda>(_, d1).
                         and_then
                           (story_examples env w (storyFilePath (projectDir env) importPath) d1)
                           (\<lambda>d2. Inr (Success d2))))
              else Inr (Success (initial_docs env sid entry)))"
    using assms by (simp add: docs_for_def Let_def)
  have d: "storyFilePath (projectDir env) importPath
            = (if isAbsolute (projectDir env) then ''/'' else [])
              @ join_slash
                  (foldl (normalize_step (\<not> isAbsolute (projectDir env))) []
                     (split_slash (projectDir env)) @ segs)"
    if "projectDir env \<noteq> [] \<and> segs \<noteq> [] \<and> list_all plain_segment segs
            \<and> (importPath = ''./'' @ join_slash segs \<or> importPath = join_slash segs)"
    for segs
    using that by (intro storyFilePath_plain) simp_all
  have e: "storyFilePath (projectDir env) importPath = projectDir env @ ''/'' @ join_slash segs"
    if h: "dirs \<noteq> [] \<and> list_all plain_segment dirs
            \<and> projectDir env = ''/'' @ join_slash dirs
            \<and> segs \<noteq> [] \<and> list_all plain_segment segs
            \<and> (importPath = ''./'' @ join_slash segs \<or> importPath = join_slash segs)"
    for dirs segs
  proof -
    from h have "storyFilePath (''/'' @ join_slash dirs) importPath
           = (''/'' @ join_slash dirs) @ ''/'' @ join_slash segs"
      by (intro storyFilePath_normalised_root) simp_all
    with h show ?thesis by simp
  qed
  have f: "getStory env w (ArgsObject sid k) = try_catch (story_for env w sid entry) caught
          \<and> getStoryDocs env w (ArgsObject sid k) = try_catch (docs_for env w sid entry) caught"
    if "index_served env w entries \<and> lookup_entry entries sid = Some entry" for entries k
  proof -
    from that have i: "index_served env w entries" and l: "lookup_entry entries sid = Some entry"
      by simp_all
    show ?thesis
      by (simp add: getStory_def getStory_served [OF i] getStoryDocs_def
          getStoryDocs_served [OF i] l)
  qed
  from a b c d e f show ?thesis by blast
qed

lemma example_story_path:
  "storyFilePath ''/proj'' ''./src/button.stories.ts'' = ''/proj/src/button.stories.ts''"
  by code_simp

theorem story_file_location_witness:
  "storyFilePath ''/proj'' ''./src/button.stories.ts'' = ''/proj/src/button.stories.ts''"
proof -
  have i: "e_importPath (snd (example_inventory ! 0))
             = Some (''./'' @ join_slash [''src'', ''button.stories.ts''])"
    by (simp add: example_inventory_def)
  have ne: "''./'' @ join_slash [''src'', ''button.stories.ts''] \<noteq> []"
    by simp
  have d: "[''proj''] \<noteq> []" and s: "[''src'', ''button.stories.ts''] \<noteq> []"
    by simp_all
  have pd: "list_all plain_segment [''proj'']"
    and ps: "list_all plain_segment [''src'', ''button.stories.ts'']"
    by (simp_all add: plain_segment_def)
  have r: "projectDir example_env = ''/'' @ join_slash [''proj'']"
    by (simp add: example_env_def)
  from story_file_location [OF i ne, of example_env example_world None] d pd s ps r
  have "storyFilePath (projectDir example_env) (''./'' @ join_slash [''src'', ''button.stories.ts''])
          = projectDir example_env @ ''/'' @ join_slash [''src'', ''button.stories.ts'']"
    by blast
  then show ?thesis
    by (simp add: example_env_def)
qed

section \<open>MDX pages\<close>

lemma endsWith_nonempty: "endsWith s ''.mdx'' \<Longrightarrow> s \<noteq> []"
  by (auto simp add: endsWith_def)

lemma docs_for_mdx:
  assumes "e_importPath entry = Some importPath" and "endsWith importPath ''.mdx''"
  shows "docs_for env w sid entry =
     (if existsSync w (storyFilePath (projectDir env) importPath) then
        and_then (readFileSync w (storyFilePath (projectDir env) importPath)) (\<lambda>content.
          Inr (Success ((initial_docs env sid entry)\<lparr>mdxContent := Some content\<rparr>)))
      else Inr (Success (initial_docs env sid entry)))"
  using assms endsWith_nonempty [OF assms(2)]
  by (simp add: docs_for_def Let_def)

text \<open>
  Claim C9. For a story whose import path ends in \<^verbatim>\<open>.mdx\<close>, \<^verbatim>\<open>getStoryDocs\<close> runs none of the
  extraction: a successful result has no component, selector, template, component code,
  properties, description, imports, meta code, story examples or usage examples. When a
  file exists at the location and can be read, the result is the initial \<^verbatim>\<open>docs\<close> object with
  the file's contents in \<^verbatim>\<open>mdxContent\<close>; when none exists, it is the initial object; when
  reading throws an error, the result is the failure with the error's message (the \<^verbatim>\<open>catch\<close>
  block reads \<^verbatim>\<open>error.message\<close>, which is undefined for another thrown value and throws for a
  thrown \<^verbatim>\<open>null\<close> or \<^verbatim>\<open>undefined\<close>).
\<close>

theorem mdx_docs:
  assumes "index_served env w entries" and "lookup_entry entries sid = Some entry"
    and "e_importPath entry = Some importPath" and "endsWith importPath ''.mdx''"
  shows "getStoryDocs env w (ArgsObject sid k) =
     (if existsSync w (storyFilePath (projectDir env) importPath) then
        (case readFileSync w (storyFilePath (projectDir env) importPath) of
           Inr content \<Rightarrow> Inr (Success ((initial_docs env sid entry)\<lparr>mdxContent := Some content\<rparr>))
         | Inl e \<Rightarrow>
             (case e of
                Error m \<Rightarrow> Inr (Failure (Some m) None)
              | ThrownValue \<Rightarrow> Inr (Failure None None)
              | ThrownNull \<Rightarrow> Inl (Error ''Cannot read properties of null (reading 'message')'')
              | ThrownUndefined \<Rightarrow>
                  Inl (Error ''Cannot read properties of undefined (reading 'message')'')))
      else Inr (Success (initial_docs env sid entry)))
   \<and> (\<forall>d. getStoryDocs env w (ArgsObject sid k) = Inr (Success d) \<longrightarrow>
          component d = None \<and> selector d = None \<and> template d = None
          \<and> componentCode d = None \<and> properties d = None \<and> componentDescription d = None
          \<and> imports d = None \<and> metaCode d = None \<and> storyExamples d = None
          \<and> usageExamples d = None)"
proof -
  let ?p = "storyFilePath (projectDir env) importPath"
  have t: "getStoryDocs_try env w (ArgsObject sid k) =
     (if existsSync w ?p then
        and_then (readFileSync w ?p) (\<lambda>content.
          Inr (Success ((initial_docs env sid entry)\<lparr>mdxContent := Some content\<rparr>)))
      else Inr (Success (initial_docs env sid entry)))"
    using assms by (simp add: getStoryDocs_served docs_for_mdx)
  have r: "getStoryDocs env w (ArgsObject sid k) =
     (if existsSync w ?p then
        (case readFileSync w ?p of
           Inr content \<Rightarrow> Inr (Success ((initial_docs env sid entry)\<lparr>mdxContent := Some content\<rparr>))
         | Inl e \<Rightarrow>
             (case e of
                Error m \<Rightarrow> Inr (Failure (Some m) None)
              | ThrownValue \<Rightarrow> Inr (Failure None None)
              | ThrownNull \<Rightarrow> Inl (Error ''Cannot read properties of null (reading 'message')'')
              | ThrownUndefined \<Rightarrow>
                  Inl (Error ''Cannot read properties of undefined (reading 'message')'')))
      else Inr (Success (initial_docs env sid entry)))"
    by (cases "readFileSync w ?p")
       (simp_all add: getStoryDocs_def t try_catch_def caught_def)
  show ?thesis
    unfolding r
    by (auto simp add: initial_docs_def split: sum.splits exn.splits)
qed

lemma example_served: "index_served example_env example_world (Some example_inventory)"
  by (simp add: index_served_def example_world_def example_env_def)

lemma example_mdx_path: "storyFilePath ''/proj'' ''./src/intro.mdx'' = ''/proj/src/intro.mdx''"
  by code_simp

theorem mdx_docs_witness:
  "getStoryDocs example_env example_world (ArgsObject (Some ''intro--docs'') None)
     = Inr (Success ((initial_docs example_env (Some ''intro--docs'')
                        (snd (example_inventory ! 1)))\<lparr>mdxContent := Some ''# Intro''\<rparr>))"
proof -
  have l: "lookup_entry (Some example_inventory) (Some ''intro--docs'') = Some (snd (example_inventory ! 1))"
    by (simp add: lookup_entry_def example_inventory_def to_string_def)
  have i: "e_importPath (snd (example_inventory ! 1)) = Some ''./src/intro.mdx''"
    by (simp add: example_inventory_def)
  have e: "endsWith ''./src/intro.mdx'' ''.mdx''"
    by (simp add: endsWith_def suffix_to_prefix)
  have p: "projectDir example_env = ''/proj''"
    by (simp add: example_env_def)
  show ?thesis
    using mdx_docs [OF example_served l i e, of None]
    by (simp add: p example_mdx_path example_world_def)
qed

section \<open>Resolving the component file\<close>

lemma extension_loop_first:
  assumes "i < length exts"
    and "existsSync w (base @ exts ! i)"
    and "\<forall>j<i. \<not> existsSync w (base @ exts ! j)"
    and "extractComponentDocs w (base @ exts ! i) = Inr r"
  shows "extension_loop w base exts d
           = Inr (map ((@) base) (take (Suc i) exts), assign_component_docs r d)"
  using assms
proof (induction exts arbitrary: i)
  case Nil
  then show ?case by simp
next
  case (Cons ext exts)
  show ?case
  proof (cases i)
    case 0
    with Cons.prems show ?thesis by simp
  next
    case (Suc i')
    from Cons.prems(3) Suc have first: "\<not> existsSync w (base @ ext)"
      by auto
    have rest: "\<forall>j<i'. \<not> existsSync w (base @ exts ! j)"
    proof (intro allI impI)
      fix j assume "j < i'"
      then have "Suc j < i" using Suc by simp
      with Cons.prems(3) have "\<not> existsSync w (base @ (ext # exts) ! Suc j)" by blast
      then show "\<not> existsSync w (base @ exts ! j)" by simp
    qed
    have "extension_loop w base exts d
            = Inr (map ((@) base) (take (Suc i') exts), assign_component_docs r d)"
      using Cons.IH [of i'] Cons.prems Suc rest by simp
    with first Suc show ?thesis by simp
  qed
qed

lemma extension_loop_none:
  "\<forall>ext\<in>set exts. \<not> existsSync w (base @ ext) \<Longrightarrow>
   extension_loop w base exts d = Inr (map ((@) base) exts, d)"
  by (induction exts) simp_all

lemma component_info_first:
  assumes "component_regex content = Some c"
    and "import_regex c content = Some specifier"
    and "base = path_resolve (cwd w) (path_dirname path) specifier"
    and "i < length extensions"
    and "existsSync w (base @ extensions ! i)"
    and "\<forall>j<i. \<not> existsSync w (base @ extensions ! j)"
    and "extractComponentDocs w (base @ extensions ! i) = Inr componentDocs"
  shows "component_info w path content d
         = Inr (map ((@) base) (take (Suc i) extensions),
                assign_component_docs componentDocs (d\<lparr>component := Some c\<rparr>))"
  using assms extension_loop_first [of i extensions w base componentDocs "d\<lparr>component := Some c\<rparr>"]
  by (simp add: component_info_def)

section \<open>The two extraction blocks in the handler\<close>

lemma docs_for_story_file:
  assumes "reads_story_file env w sid entry path content"
  shows "docs_for env w sid entry =
           and_then (component_info w path content (initial_docs env sid entry)) (\<lambda>(_, d1).
           and_then (story_examples env w path d1) (\<lambda>d2. Inr (Success d2)))"
  using assms
  by (auto simp add: reads_story_file_def docs_for_def Let_def split: option.splits)

lemma getStoryDocs_story_file:
  assumes "index_served env w entries" and "lookup_entry entries sid = Some entry"
    and "reads_story_file env w sid entry path content"
  shows "getStoryDocs_try env w (ArgsObject sid k) =
           and_then (component_info w path content (initial_docs env sid entry)) (\<lambda>(_, d1).
           and_then (story_examples env w path d1) (\<lambda>d2. Inr (Success d2)))"
  using assms by (simp add: getStoryDocs_served docs_for_story_file)

lemma story_examples_without_selector:
  assumes "selector d = None" and "extractStoryExamples w path = Inr examples"
  shows "story_examples env w path d =
     Inr (case examples of
            None \<Rightarrow> d
          | Some se \<Rightarrow> d\<lparr>imports := sf_imports se, metaCode := sf_meta se,
                         storyExamples := sf_stories se\<rparr>)"
  using assms by (simp add: story_examples_def Let_def split: option.splits)

text \<open>The component block leaves the properties of the story block alone.\<close>

lemma extension_loop_keeps:
  "extension_loop w base exts d = Inr (probed, d') \<Longrightarrow>
   component d' = component d \<and> imports d' = imports d \<and> metaCode d' = metaCode d
   \<and> storyExamples d' = storyExamples d \<and> usageExamples d' = usageExamples d
   \<and> mdxContent d' = mdxContent d"
proof (induction exts arbitrary: probed)
  case Nil
  then show ?case by simp
next
  case (Cons ext exts)
  show ?case
  proof (cases "existsSync w (base @ ext)")
    case True
    with Cons.prems obtain r where "d' = assign_component_docs r d"
      by (auto simp add: and_then_eq_Inr Let_def)
    then show ?thesis
      by (cases r) (simp_all add: assign_component_docs_def)
  next
    case False
    with Cons.prems obtain probed' where "extension_loop w base exts d = Inr (probed', d')"
      by (auto simp add: and_then_eq_Inr Let_def)
    from Cons.IH [OF this] show ?thesis .
  qed
qed

lemma component_info_keeps:
  assumes "component_info w path content d = Inr (probed, d')"
  shows "imports d' = imports d \<and> metaCode d' = metaCode d
   \<and> storyExamples d' = storyExamples d \<and> usageExamples d' = usageExamples d
   \<and> mdxContent d' = mdxContent d"
proof (cases "component_regex content")
  case None
  with assms show ?thesis by (simp add: component_info_def)
next
  case (Some c)
  show ?thesis
  proof (cases "import_regex c content")
    case None
    with assms Some show ?thesis by (auto simp add: component_info_def)
  next
    case (Some specifier)
    with assms \<open>component_regex content = Some c\<close>
    have "extension_loop w (path_resolve (cwd w) (path_dirname path) specifier) extensions
            (d\<lparr>component := Some c\<rparr>) = Inr (probed, d')"
      by (simp add: component_info_def)
    from extension_loop_keeps [OF this] show ?thesis by simp
  qed
qed

text \<open>What the story block leaves behind.\<close>

lemma story_examples_result:
  assumes "story_examples env w path d1 = Inr d2" and "usageExamples d1 = None"
  shows "case extractStoryExamples w path of
           Inr (Some se) \<Rightarrow>
             d2 = d1\<lparr>imports := sf_imports se, metaCode := sf_meta se,
                      storyExamples := sf_stories se, usageExamples := usageExamples d2\<rparr>
         | _ \<Rightarrow> d2 = d1"
proof (cases "extractStoryExamples w path")
  case (Inl e)
  with assms show ?thesis by (simp add: story_examples_def)
next
  case (Inr examples)
  show ?thesis
  proof (cases examples)
    case None
    with Inr assms show ?thesis by (simp add: story_examples_def)
  next
    case (Some se)
    let ?d = "d1\<lparr>imports := sf_imports se, metaCode := sf_meta se,
                  storyExamples := sf_stories se\<rparr>"
    have "d2 = ?d \<or> (\<exists>ex. d2 = ?d\<lparr>usageExamples := Some ex\<rparr>)"
      using assms(1) Inr Some
      by (auto simp add: story_examples_def and_then_eq_Inr Let_def
          split: option.splits if_splits)
    then show ?thesis
      using Inr Some assms(2) by auto
  qed
qed

lemma story_examples_keeps:
  assumes "story_examples env w path d1 = Inr d2"
  shows "component d2 = component d1 \<and> selector d2 = selector d1 \<and> template d2 = template d1
     \<and> componentCode d2 = componentCode d1 \<and> properties d2 = properties d1
     \<and> componentDescription d2 = componentDescription d1"
proof (cases "extractStoryExamples w path")
  case (Inl e)
  with assms show ?thesis by (simp add: story_examples_def)
next
  case (Inr examples)
  show ?thesis
  proof (cases examples)
    case None
    with Inr assms show ?thesis by (simp add: story_examples_def)
  next
    case (Some se)
    let ?d = "d1\<lparr>imports := sf_imports se, metaCode := sf_meta se,
                  storyExamples := sf_stories se\<rparr>"
    have "d2 = ?d \<or> (\<exists>ex. d2 = ?d\<lparr>usageExamples := Some ex\<rparr>)"
      using assms Inr Some
      by (auto simp add: story_examples_def and_then_eq_Inr Let_def
          split: option.splits if_splits)
    then show ?thesis by auto
  qed
qed

section \<open>The example project, evaluated\<close>

lemma example_component: "component_regex example_source = Some ''ButtonComponent''"
  by code_simp

lemma example_import: "import_regex ''ButtonComponent'' example_source = Some ''./button.component''"
  by code_simp

lemma example_base:
  "path_resolve ''/proj'' (path_dirname ''/proj/src/button.stories.ts'') ''./button.component''
     = ''/proj/src/button.component''"
  by code_simp

lemma example_lookup:
  "lookup_entry (Some example_inventory) (Some ''example-button--primary'')
     = Some (snd (example_inventory ! 0))"
  by (simp add: lookup_entry_def example_inventory_def to_string_def)

lemma not_mdx: "\<not> endsWith ''./src/button.stories.ts'' ''.mdx''"
  by (simp add: endsWith_def suffix_to_prefix)

lemma example_reads:
  "reads_story_file example_env example_world (Some ''example-button--primary'')
     (snd (example_inventory ! 0)) ''/proj/src/button.stories.ts'' example_source"
  by (simp add: reads_story_file_def example_inventory_def not_mdx example_env_def
        example_story_path example_world_def)

section \<open>The order of the candidates\<close>

text \<open>
  Claim C1. The story file is read, it names its component and imports it. The candidates
  are the base path (the import specifier resolved against the story file's directory)
  followed by nothing, \<^verbatim>\<open>.ts\<close>, \<^verbatim>\<open>.tsx\<close>, \<^verbatim>\<open>.js\<close>, \<^verbatim>\<open>.jsx\<close>, \<^verbatim>\<open>.vue\<close>, \<^verbatim>\<open>.svelte\<close>, in this
  order. If the candidate number \<open>i\<close> exists and none before it does, then exactly the
  candidates up to number \<open>i\<close> are handed to \<^verbatim>\<open>fs.existsSync\<close>, in this order, whichever
  later candidates exist, and the component documentation is what \<^verbatim>\<open>extractComponentDocs\<close>
  returns for candidate \<open>i\<close>: its selector, template, component code, properties and
  description are assigned to the \<^verbatim>\<open>docs\<close> object, and they are the ones in every successful
  result of \<^verbatim>\<open>getStoryDocs\<close> (none of them, when it returned nothing).
\<close>

theorem probe_order:
  assumes "index_served env w entries" and "lookup_entry entries sid = Some entry"
    and "reads_story_file env w sid entry path content"
    and "component_regex content = Some c"
    and "import_regex c content = Some specifier"
    and "base = path_resolve (cwd w) (path_dirname path) specifier"
    and "i < length extensions"
    and "existsSync w (base @ extensions ! i)"
    and "\<forall>j<i. \<not> existsSync w (base @ extensions ! j)"
    and "extractComponentDocs w (base @ extensions ! i) = Inr componentDocs"
  shows "extensions = ['''', ''.ts'', ''.tsx'', ''.js'', ''.jsx'', ''.vue'', ''.svelte'']
     \<and> component_info w path content d0
         = Inr (map ((@) base) (take (Suc i) extensions),
                (case componentDocs of
                   None \<Rightarrow> d0\<lparr>component := Some c\<rparr>
                 | Some cd \<Rightarrow>
                     d0\<lparr>component := Some c, selector := cd_selector cd,
                        template := cd_template cd, componentCode := cd_componentCode cd,
                        properties := cd_properties cd,
                        componentDescription := cd_description cd\<rparr>))
     \<and> (\<forall>d. getStoryDocs env w (ArgsObject sid k) = Inr (Success d) \<longrightarrow>
          component d = Some c
          \<and> (case componentDocs of
                None \<Rightarrow>
                  selector d = None \<and> template d = None \<and> componentCode d = None
                  \<and> properties d = None \<and> componentDescription d = None
              | Some cd \<Rightarrow>
                  selector d = cd_selector cd \<and> template d = cd_template cd
                  \<and> componentCode d = cd_componentCode cd \<and> properties d = cd_properties cd
                  \<and> componentDescription d = cd_description cd))"
proof -
  let ?assigned = "\<lambda>d. case componentDocs of
                   None \<Rightarrow> d\<lparr>component := Some c\<rparr>
                 | Some cd \<Rightarrow>
                     d\<lparr>component := Some c, selector := cd_selector cd,
                        template := cd_template cd, componentCode := cd_componentCode cd,
                        properties := cd_properties cd,
                        componentDescription := cd_description cd\<rparr>"
  have ci: "component_info w path content d
              = Inr (map ((@) base) (take (Suc i) extensions), ?assigned d)" for d
    using extension_loop_first [OF assms(7-10), of "d\<lparr>component := Some c\<rparr>"] assms(4,5,6)
    by (cases componentDocs) (simp_all add: component_info_def assign_component_docs_def)
  have fields: "component d = Some c
          \<and> (case componentDocs of
                None \<Rightarrow>
                  selector d = None \<and> template d = None \<and> componentCode d = None
                  \<and> properties d = None \<and> componentDescription d = None
              | Some cd \<Rightarrow>
                  selector d = cd_selector cd \<and> template d = cd_template cd
                  \<and> componentCode d = cd_componentCode cd \<and> properties d = cd_properties cd
                  \<and> componentDescription d = cd_description cd)"
    if "getStoryDocs env w (ArgsObject sid k) = Inr (Success d)" for d
  proof -
    have "getStoryDocs_try env w (ArgsObject sid k) = Inr (Success d)"
      using that by (rule getStoryDocs_try_success)
    then have "story_examples env w path (?assigned (initial_docs env sid entry)) = Inr d"
      unfolding getStoryDocs_story_file [OF assms(1,2,3)] ci
      by (auto simp add: and_then_eq_Inr)
    from story_examples_keeps [OF this] show ?thesis
      by (cases componentDocs) (simp_all add: initial_docs_def)
  qed
  have "extensions = ['''', ''.ts'', ''.tsx'', ''.js'', ''.jsx'', ''.vue'', ''.svelte'']"
    by (simp add: extensions_def)
  with ci [of d0] fields show ?thesis by blast
qed

theorem probe_order_witness:
  "component_info example_world ''/proj/src/button.stories.ts'' example_source
       (initial_docs example_env None blank_entry)
     = Inr ([''/proj/src/button.component'', ''/proj/src/button.component.ts''],
            (initial_docs example_env None blank_entry)
              \<lparr>component := Some ''ButtonComponent'', selector := Some ''app-button'',
               template := Some ''<button>{{ label }}</button>'', componentCode := None,
               properties := Some (JArr [JObj [(''name'', JStr ''label''),
                                               (''type'', JStr ''string'')]]),
               componentDescription := Some ''A button.''\<rparr>)
   \<and> existsSync example_world ''/proj/src/button.component.js''"
proof -
  have b: "''/proj/src/button.component''
             = path_resolve (cwd example_world) (path_dirname ''/proj/src/button.stories.ts'')
                 ''./button.component''"
    by (simp add: example_base example_world_def)
  have i: "(1::nat) < length extensions"
    by (simp add: extensions_def)
  have e: "existsSync example_world (''/proj/src/button.component'' @ extensions ! 1)"
    by (simp add: extensions_def example_world_def)
  have n: "\<forall>j<1::nat. \<not> existsSync example_world (''/proj/src/button.component'' @ extensions ! j)"
    by (simp add: extensions_def example_world_def)
  have x: "extractComponentDocs example_world (''/proj/src/button.component'' @ extensions ! 1)
             = Inr (Some example_component_docs)"
    by (simp add: extensions_def example_world_def)
  have j: "existsSync example_world ''/proj/src/button.component.js''"
    by (simp add: example_world_def)
  from probe_order [OF example_served example_lookup example_reads example_component
      example_import b i e n x, of "initial_docs example_env None blank_entry" None] j
  show ?thesis
    by (simp add: extensions_def example_component_docs_def)
qed

section \<open>A story file whose component file is not found\<close>

text \<open>
  Claim C2. The story file is read, it names its component and imports it, but no candidate
  exists under any of the extensions, and \<^verbatim>\<open>extractStoryExamples\<close> returns (without throwing).
  Then \<^verbatim>\<open>getStoryDocs\<close> succeeds; the result has no selector, template, component code,
  properties or component description (and no usage examples), and it has the imports, the
  meta code and the story examples that \<^verbatim>\<open>extractStoryExamples\<close> returned.
\<close>

theorem unresolved_import:
  assumes "index_served env w entries" and "lookup_entry entries sid = Some entry"
    and "reads_story_file env w sid entry path content"
    and "component_regex content = Some c"
    and "import_regex c content = Some specifier"
    and "\<forall>ext\<in>set extensions.
           \<not> existsSync w (path_resolve (cwd w) (path_dirname path) specifier @ ext)"
    and "extractStoryExamples w path = Inr examples"
  shows "\<exists>d. getStoryDocs env w (ArgsObject sid k) = Inr (Success d)
     \<and> selector d = None \<and> template d = None \<and> componentCode d = None
     \<and> properties d = None \<and> componentDescription d = None \<and> usageExamples d = None
     \<and> (case examples of
           None \<Rightarrow> imports d = None \<and> metaCode d = None \<and> storyExamples d = None
         | Some se \<Rightarrow> imports d = sf_imports se \<and> metaCode d = sf_meta se
                       \<and> storyExamples d = sf_stories se)"
proof -
  let ?d0 = "initial_docs env sid entry"
  let ?d1 = "?d0\<lparr>component := Some c\<rparr>"
  let ?base = "path_resolve (cwd w) (path_dirname path) specifier"
  have ci: "component_info w path content ?d0 = Inr (map ((@) ?base) extensions, ?d1)"
    using assms(4,5) extension_loop_none [OF assms(6)]
    by (simp add: component_info_def)
  have sel: "selector ?d1 = None"
    by (simp add: initial_docs_def)
  let ?d2 = "case examples of
               None \<Rightarrow> ?d1
             | Some se \<Rightarrow> ?d1\<lparr>imports := sf_imports se, metaCode := sf_meta se,
                              storyExamples := sf_stories se\<rparr>"
  have "getStoryDocs_try env w (ArgsObject sid k) = Inr (Success ?d2)"
    using getStoryDocs_story_file [OF assms(1,2,3)] ci
      story_examples_without_selector [OF sel assms(7)]
    by simp
  then have "getStoryDocs env w (ArgsObject sid k) = Inr (Success ?d2)"
    by (rule getStoryDocs_Inr)
  moreover have "selector ?d2 = None \<and> template ?d2 = None \<and> componentCode ?d2 = None
     \<and> properties ?d2 = None \<and> componentDescription ?d2 = None \<and> usageExamples ?d2 = None
     \<and> (case examples of
           None \<Rightarrow> imports ?d2 = None \<and> metaCode ?d2 = None \<and> storyExamples ?d2 = None
         | Some se \<Rightarrow> imports ?d2 = sf_imports se \<and> metaCode ?d2 = sf_meta se
                       \<and> storyExamples ?d2 = sf_stories se)"
    by (cases examples) (simp_all add: initial_docs_def)
  ultimately show ?thesis by blast
qed

theorem unresolved_import_witness:
  "\<exists>d. getStoryDocs example_env no_component_world (ArgsObject (Some ''example-button--primary'') None)
          = Inr (Success d)
     \<and> selector d = None \<and> template d = None \<and> componentCode d = None
     \<and> properties d = None \<and> componentDescription d = None \<and> usageExamples d = None
     \<and> imports d = sf_imports example_story_file_doc
     \<and> metaCode d = sf_meta example_story_file_doc
     \<and> storyExamples d = sf_stories example_story_file_doc"
proof -
  have s: "index_served example_env no_component_world (Some example_inventory)"
    by (simp add: index_served_def no_component_world_def example_world_def example_env_def)
  have r: "reads_story_file example_env no_component_world (Some ''example-button--primary'')
             (snd (example_inventory ! 0)) ''/proj/src/button.stories.ts'' example_source"
    by (simp add: reads_story_file_def example_inventory_def not_mdx example_env_def
          example_story_path no_component_world_def example_world_def)
  have b: "path_resolve (cwd no_component_world) (path_dirname ''/proj/src/button.stories.ts'')
             ''./button.component'' = ''/proj/src/button.component''"
    by (simp add: example_base no_component_world_def example_world_def)
  have n: "\<forall>ext\<in>set extensions.
             \<not> existsSync no_component_world
                 (path_resolve (cwd no_component_world) (path_dirname ''/proj/src/button.stories.ts'')
                    ''./button.component'' @ ext)"
    unfolding b by (simp add: extensions_def no_component_world_def)
  have x: "extractStoryExamples no_component_world ''/proj/src/button.stories.ts''
             = Inr (Some example_story_file_doc)"
    by (simp add: no_component_world_def example_world_def)
  show ?thesis
    using unresolved_import [OF s example_lookup r example_component example_import n x, of None]
    by simp
qed

section \<open>Usage examples\<close>

lemma keys_obj_set:
  "map fst (obj_set obj key v)
     = (if key = ''__proto__'' \<or> key \<in> set (map fst obj) then map fst obj
        else map fst obj @ [key])"
  by (induction obj) (auto simp add: obj_set_def)

lemma set_obj_set:
  "(k, x) \<in> set (obj_set obj key v) \<Longrightarrow> (k = key \<and> x = v) \<or> (k, x) \<in> set obj"
  by (auto simp add: obj_set_def split: if_splits)

lemma distinct_obj_set:
  "distinct (map fst obj) \<Longrightarrow> distinct (map fst (obj_set obj key v))"
  by (simp add: keys_obj_set)

lemma obj_set_no_proto:
  "''__proto__'' \<notin> set (map fst obj) \<Longrightarrow> ''__proto__'' \<notin> set (map fst (obj_set obj key v))"
  by (auto simp add: keys_obj_set)

text \<open>The loop over the variants: its keys, and where its values come from.\<close>

lemma usage_loop_keys:
  "usage_loop env sel stories acc = Inr examples \<Longrightarrow>
   set (map fst examples) = set (map fst acc) \<union> (set (map fst stories) - {''__proto__''})"
proof (induction stories arbitrary: acc)
  case Nil
  then show ?case by simp
next
  case (Cons s stories)
  obtain variant story where s: "s = (variant, story)" by (cases s)
  from Cons.prems s obtain example where
    "usage_loop env sel stories (obj_set acc variant example) = Inr examples"
    by (auto simp add: and_then_eq_Inr)
  from Cons.IH [OF this] show ?case
    using s by (auto simp add: keys_obj_set split: if_splits)
qed

lemma usage_loop_no_proto:
  "usage_loop env sel stories acc = Inr examples \<Longrightarrow> ''__proto__'' \<notin> set (map fst acc) \<Longrightarrow>
   ''__proto__'' \<notin> set (map fst examples)"
  using usage_loop_keys [of env sel stories acc examples] by auto

lemma usage_loop_distinct:
  "usage_loop env sel stories acc = Inr examples \<Longrightarrow> distinct (map fst acc) \<Longrightarrow>
   distinct (map fst examples)"
proof (induction stories arbitrary: acc)
  case Nil
  then show ?case by simp
next
  case (Cons s stories)
  obtain variant story where s: "s = (variant, story)" by (cases s)
  from Cons.prems s obtain example where
    "usage_loop env sel stories (obj_set acc variant example) = Inr examples"
    by (auto simp add: and_then_eq_Inr)
  from Cons.IH [OF this distinct_obj_set [OF Cons.prems(2)]] show ?case .
qed

lemma usage_loop_values:
  "usage_loop env sel stories acc = Inr examples \<Longrightarrow> (variant, example) \<in> set examples \<Longrightarrow>
   (variant, example) \<in> set acc
   \<or> (\<exists>story. (variant, story) \<in> set stories
        \<and> generateUsageExample env sel (v_args story) variant (framework env) = Inr example)"
proof (induction stories arbitrary: acc)
  case Nil
  then show ?case by simp
next
  case (Cons s stories)
  obtain v story where s: "s = (v, story)" by (cases s)
  from Cons.prems(1) s obtain ex where
    g: "generateUsageExample env sel (v_args story) v (framework env) = Inr ex"
    and l: "usage_loop env sel stories (obj_set acc v ex) = Inr examples"
    by (auto simp add: and_then_eq_Inr)
  from Cons.IH [OF l Cons.prems(2)] show ?case
  proof
    assume "(variant, example) \<in> set (obj_set acc v ex)"
    from set_obj_set [OF this] show ?thesis
      using g s by auto
  next
    assume "\<exists>story. (variant, story) \<in> set stories
        \<and> generateUsageExample env sel (v_args story) variant (framework env) = Inr example"
    then show ?thesis using s by auto
  qed
qed

lemma usage_loop_order:
  "usage_loop env sel stories acc = Inr examples \<Longrightarrow> distinct (map fst stories) \<Longrightarrow>
   set (map fst acc) \<inter> set (map fst stories) = {} \<Longrightarrow>
   map fst examples = map fst acc @ filter (\<lambda>key. key \<noteq> ''__proto__'') (map fst stories)"
proof (induction stories arbitrary: acc)
  case Nil
  then show ?case by simp
next
  case (Cons s stories)
  obtain v story where s: "s = (v, story)" by (cases s)
  from Cons.prems(1) s obtain ex where
    l: "usage_loop env sel stories (obj_set acc v ex) = Inr examples"
    by (auto simp add: and_then_eq_Inr)
  have new: "v \<notin> set (map fst acc)"
    using Cons.prems(3) s by auto
  then have k: "map fst (obj_set acc v ex)
                  = map fst acc @ (if v = ''__proto__'' then [] else [v])"
    by (simp add: keys_obj_set)
  have d: "distinct (map fst stories)" and nv: "v \<notin> set (map fst stories)"
    using Cons.prems(2) s by auto
  have "set (map fst (obj_set acc v ex)) \<inter> set (map fst stories) = {}"
    using Cons.prems(3) nv s unfolding k by auto
  from Cons.IH [OF l d this] show ?case
    using s k by simp
qed

text \<open>Where the usage examples of a result come from.\<close>

lemma story_examples_usage:
  assumes "story_examples env w path d1 = Inr d2"
    and "usageExamples d1 = None" and "storyExamples d1 = None"
  shows "usage_examples_from env d2"
proof (cases "extractStoryExamples w path")
  case (Inl e)
  with assms(1) show ?thesis by (simp add: story_examples_def)
next
  case (Inr examples)
  show ?thesis
  proof (cases examples)
    case None
    with Inr assms show ?thesis
      by (simp add: story_examples_def usage_examples_from_def)
  next
    case (Some se)
    let ?d = "d1\<lparr>imports := sf_imports se, metaCode := sf_meta se,
                  storyExamples := sf_stories se\<rparr>"
    show ?thesis
    proof (cases "selector d1")
      case None
      with Inr Some assms(1,2) show ?thesis
        by (auto simp add: story_examples_def usage_examples_from_def truthy_str_def)
    next
      case sel: (Some sel)
      show ?thesis
      proof (cases "sf_stories se")
        case None
        with Inr Some sel assms(1,2) show ?thesis
          by (auto simp add: story_examples_def usage_examples_from_def)
      next
        case stories: (Some stories)
        show ?thesis
        proof (cases "sel = []")
          case True
          with Inr Some sel stories assms(1,2) show ?thesis
            by (auto simp add: story_examples_def usage_examples_from_def truthy_str_def)
        next
          case False
          with Inr Some sel stories assms(1) obtain ex where
            "usage_loop env sel stories [] = Inr ex" and "d2 = ?d\<lparr>usageExamples := Some ex\<rparr>"
            by (auto simp add: story_examples_def and_then_eq_Inr)
          with False sel stories show ?thesis
            by (simp add: usage_examples_from_def)
        qed
      qed
    qed
  qed
qed

lemma initial_docs_usage: "usage_examples_from env (initial_docs env sid entry)"
  by (simp add: usage_examples_from_def initial_docs_def truthy_str_def)

lemma initial_docs_mdx_usage:
  "usage_examples_from env ((initial_docs env sid entry)\<lparr>mdxContent := Some content\<rparr>)"
  by (simp add: usage_examples_from_def initial_docs_def truthy_str_def)

lemma docs_for_usage:
  assumes "docs_for env w sid entry = Inr (Success d)"
  shows "usage_examples_from env d"
proof (cases "e_importPath entry")
  case None
  with assms show ?thesis
    by (auto simp add: docs_for_def Let_def initial_docs_usage)
next
  case (Some importPath)
  let ?p = "storyFilePath (projectDir env) importPath"
  let ?d0 = "initial_docs env sid entry"
  consider (empty) "importPath = []"
    | (missing) "importPath \<noteq> []" and "\<not> existsSync w ?p"
    | (mdx) "importPath \<noteq> []" and "existsSync w ?p" and "endsWith importPath ''.mdx''"
    | (story_file) "importPath \<noteq> []" and "existsSync w ?p" and "\<not> endsWith importPath ''.mdx''"
    by blast
  then show ?thesis
  proof cases
    case empty
    with assms Some show ?thesis
      by (auto simp add: docs_for_def Let_def initial_docs_usage)
  next
    case missing
    with assms Some show ?thesis
      by (auto simp add: docs_for_def Let_def initial_docs_usage split: if_splits)
  next
    case mdx
    with assms Some show ?thesis
      by (auto simp add: docs_for_def Let_def and_then_eq_Inr initial_docs_mdx_usage)
  next
    case story_file
    with assms Some obtain content probed d1 where
      c: "component_info w ?p content ?d0 = Inr (probed, d1)"
      and s: "story_examples env w ?p d1 = Inr d"
      by (auto simp add: docs_for_def Let_def and_then_eq_Inr)
    from component_info_keeps [OF c]
    have "usageExamples d1 = None" and "storyExamples d1 = None"
      by (simp_all add: initial_docs_def)
    with s show ?thesis by (rule story_examples_usage)
  qed
qed

lemma getStoryDocs_success:
  assumes "getStoryDocs env w a = Inr (Success d)"
  shows "\<exists>sid entry. docs_for env w sid entry = Inr (Success d)"
proof -
  have t: "getStoryDocs_try env w a = Inr (Success d)"
    using assms by (rule getStoryDocs_try_success)
  then show ?thesis
    by (auto simp add: getStoryDocs_try_def and_then_eq_Inr not_ready_def not_found_def
        split: if_splits option.splits)
qed

text \<open>
  In every successful result of \<^verbatim>\<open>getStoryDocs\<close>, the usage examples are there exactly when
  the selector is truthy and the story examples are there. When they are there, their keys
  are distinct and are the names of the variants other than \<^verbatim>\<open>__proto__\<close>, every example is
  what \<^verbatim>\<open>generateUsageExample\<close> returned for the selector, the arguments of a variant of that
  name, the name and the framework, and, the variant names being distinct, the examples
  come in the order of the variants.
\<close>

lemma usage_examples_of_result:
  assumes "getStoryDocs env w a = Inr (Success d)"
  shows "(usageExamples d \<noteq> None \<longleftrightarrow> truthy_str (selector d) \<and> storyExamples d \<noteq> None)
     \<and> (\<forall>sel stories examples.
          selector d = Some sel \<and> storyExamples d = Some stories
          \<and> usageExamples d = Some examples \<longrightarrow>
            distinct (map fst examples)
            \<and> set (map fst examples) = set (map fst stories) - {''__proto__''}
            \<and> (\<forall>variant example. (variant, example) \<in> set examples \<longrightarrow>
                 (\<exists>story. (variant, story) \<in> set stories
                    \<and> generateUsageExample env sel (v_args story) variant (framework env)
                        = Inr example))
            \<and> (distinct (map fst stories) \<longrightarrow>
                 map fst examples = filter (\<lambda>key. key \<noteq> ''__proto__'') (map fst stories)))"
proof -
  from getStoryDocs_success [OF assms] obtain sid entry where
    "docs_for env w sid entry = Inr (Success d)" by blast
  then have u: "usage_examples_from env d" by (rule docs_for_usage)
  have first: "usageExamples d \<noteq> None \<longleftrightarrow> truthy_str (selector d) \<and> storyExamples d \<noteq> None"
    using u by (auto simp add: usage_examples_from_def truthy_str_def split: option.splits)
  have second: "distinct (map fst examples)
            \<and> set (map fst examples) = set (map fst stories) - {''__proto__''}
            \<and> (\<forall>variant example. (variant, example) \<in> set examples \<longrightarrow>
                 (\<exists>story. (variant, story) \<in> set stories
                    \<and> generateUsageExample env sel (v_args story) variant (framework env)
                        = Inr example))
            \<and> (distinct (map fst stories) \<longrightarrow>
                 map fst examples = filter (\<lambda>key. key \<noteq> ''__proto__'') (map fst stories))"
    if "selector d = Some sel \<and> storyExamples d = Some stories \<and> usageExamples d = Some examples"
    for sel stories examples
  proof -
    from that u have l: "usage_loop env sel stories [] = Inr examples"
      by (simp add: usage_examples_from_def)
    have "distinct (map fst examples)"
      using usage_loop_distinct [OF l] by simp
    moreover have "set (map fst examples) = set (map fst stories) - {''__proto__''}"
      using usage_loop_keys [OF l] by simp
    moreover have "\<exists>story. (variant, story) \<in> set stories
          \<and> generateUsageExample env sel (v_args story) variant (framework env) = Inr example"
      if "(variant, example) \<in> set examples" for variant example
      using usage_loop_values [OF l that] by simp
    moreover have "map fst examples = filter (\<lambda>key. key \<noteq> ''__proto__'') (map fst stories)"
      if "distinct (map fst stories)"
      using usage_loop_order [OF l that] by simp
    ultimately show ?thesis by blast
  qed
  from first second show ?thesis by blast
qed

text \<open>The example project, through the handler.\<close>

lemma example_component_info:
  assumes "cwd w = ''/proj''"
    and "existsSync w = existsSync example_world"
    and "extractComponentDocs w = extractComponentDocs example_world"
    and "component_regex content = Some ''ButtonComponent''"
    and "import_regex ''ButtonComponent'' content = Some ''./button.component''"
  shows "component_info w ''/proj/src/button.stories.ts'' content d
     = Inr ([''/proj/src/button.component'', ''/proj/src/button.component.ts''],
            assign_component_docs (Some example_component_docs) (d\<lparr>component := Some ''ButtonComponent''\<rparr>))"
proof -
  have b: "''/proj/src/button.component''
             = path_resolve (cwd w) (path_dirname ''/proj/src/button.stories.ts'')
                 ''./button.component''"
    by (simp add: example_base assms(1))
  have i: "(1::nat) < length extensions"
    by (simp add: extensions_def)
  have e: "existsSync w (''/proj/src/button.component'' @ extensions ! 1)"
    by (simp add: extensions_def assms(2) example_world_def)
  have n: "\<forall>j<1::nat. \<not> existsSync w (''/proj/src/button.component'' @ extensions ! j)"
    by (simp add: extensions_def assms(2) example_world_def)
  have x: "extractComponentDocs w (''/proj/src/button.component'' @ extensions ! 1)
             = Inr (Some example_component_docs)"
    by (simp add: extensions_def assms(3) example_world_def)
  show ?thesis
    using component_info_first [OF assms(4,5) b i e n x, of d]
    by (simp add: extensions_def)
qed

lemma example_world_component_info:
  "component_info example_world ''/proj/src/button.stories.ts'' example_source d
     = Inr ([''/proj/src/button.component'', ''/proj/src/button.component.ts''],
            assign_component_docs (Some example_component_docs) (d\<lparr>component := Some ''ButtonComponent''\<rparr>))"
  by (rule example_component_info)
     (simp_all add: example_world_def example_component example_import)

lemma example_docs_eval:
  "getStoryDocs example_env example_world (ArgsObject (Some ''example-button--primary'') None)
     = Inr (Success example_docs)"
proof -
  have x: "extractStoryExamples example_world ''/proj/src/button.stories.ts''
             = Inr (Some example_story_file_doc)"
    by (simp add: example_world_def)
  have "getStoryDocs_try example_env example_world (ArgsObject (Some ''example-button--primary'') None)
          = Inr (Success example_docs)"
    unfolding getStoryDocs_story_file [OF example_served example_lookup example_reads]
      example_world_component_info
    by (simp add: story_examples_def x assign_component_docs_def example_component_docs_def
          example_story_file_doc_def initial_docs_def example_inventory_def example_env_def
          example_generator_def obj_set_def example_docs_def)
  then show ?thesis by (rule getStoryDocs_Inr)
qed

lemma example_usage_examples:
  "getStoryDocs example_env example_world (ArgsObject (Some ''example-button--primary'') None)
     = Inr (Success example_docs)
   \<and> usageExamples example_docs
       = Some [(''Primary'', ''<app-button></app-button> // Primary, angular, with args'')]
   \<and> map fst (the (storyExamples example_docs)) = [''Primary'']"
  using example_docs_eval by (simp add: example_docs_def)






section \<open>A variant named \<^verbatim>\<open>__proto__\<close> gets no usage example\<close>


section \<open>A story file without variants\<close>

lemma example_variant_names: "variant_names example_source = [''Primary'']"
  by code_simp

lemma proto_variant_names: "variant_names proto_variant_source = [''Primary'', ''__proto__'']"
  by code_simp






section \<open>The fields of the documentation\<close>

text \<open>
  Claim C7. The story file is read, its component file is found (candidate number \<open>i\<close> is
  the first that exists) and \<^verbatim>\<open>extractComponentDocs\<close> returns \<open>cd\<close> for it,
  \<^verbatim>\<open>extractStoryExamples\<close> returns \<open>se\<close>, and the request succeeds with \<open>d\<close>. Then the fields
  \<^verbatim>\<open>selector\<close>, \<^verbatim>\<open>template\<close>, \<^verbatim>\<open>componentCode\<close> and \<^verbatim>\<open>properties\<close> of \<open>d\<close> are those of \<open>cd\<close>,
  \<^verbatim>\<open>componentDescription\<close> is the \<^verbatim>\<open>description\<close> of \<open>cd\<close>, \<^verbatim>\<open>imports\<close> is that of \<open>se\<close>,
  \<^verbatim>\<open>metaCode\<close> is the \<^verbatim>\<open>meta\<close> of \<open>se\<close>, \<^verbatim>\<open>storyExamples\<close> is the \<^verbatim>\<open>stories\<close> of \<open>se\<close>, and
  \<^verbatim>\<open>usageExamples\<close> is there exactly when the selector is truthy and the stories are there.
  These nine are all that the two extraction blocks write: without them, \<open>d\<close> is the
  object the handler started from (the story's \<^verbatim>\<open>storyId\<close>, \<^verbatim>\<open>title\<close>, \<^verbatim>\<open>name\<close> and \<^verbatim>\<open>type\<close>
  and the \<^verbatim>\<open>framework\<close>) with the \<^verbatim>\<open>component\<close> name set.
\<close>

theorem docs_fields:
  assumes "index_served env w entries" and "lookup_entry entries sid = Some entry"
    and "reads_story_file env w sid entry path content"
    and "component_regex content = Some c"
    and "import_regex c content = Some specifier"
    and "base = path_resolve (cwd w) (path_dirname path) specifier"
    and "i < length extensions"
    and "existsSync w (base @ extensions ! i)"
    and "\<forall>j<i. \<not> existsSync w (base @ extensions ! j)"
    and "extractComponentDocs w (base @ extensions ! i) = Inr (Some cd)"
    and "extractStoryExamples w path = Inr (Some se)"
    and "getStoryDocs env w (ArgsObject sid k) = Inr (Success d)"
  shows "selector d = cd_selector cd \<and> template d = cd_template cd
     \<and> componentCode d = cd_componentCode cd \<and> properties d = cd_properties cd
     \<and> componentDescription d = cd_description cd
     \<and> imports d = sf_imports se \<and> metaCode d = sf_meta se
     \<and> storyExamples d = sf_stories se
     \<and> (usageExamples d \<noteq> None \<longleftrightarrow> truthy_str (cd_selector cd) \<and> sf_stories se \<noteq> None)
     \<and> d\<lparr>selector := None, template := None, componentCode := None, properties := None,
          componentDescription := None, imports := None, metaCode := None,
          storyExamples := None, usageExamples := None\<rparr>
         = (initial_docs env sid entry)\<lparr>component := Some c\<rparr>"
proof -
  let ?d0 = "initial_docs env sid entry"
  let ?d1 = "assign_component_docs (Some cd) (?d0\<lparr>component := Some c\<rparr>)"
  have ci: "component_info w path content ?d0
              = Inr (map ((@) base) (take (Suc i) extensions), ?d1)"
    by (rule component_info_first [OF assms(4-10)])
  have u1: "usageExamples ?d1 = None" and s1: "storyExamples ?d1 = None"
    by (simp_all add: assign_component_docs_def initial_docs_def)
  have "getStoryDocs_try env w (ArgsObject sid k) = Inr (Success d)"
    using assms(12) by (rule getStoryDocs_try_success)
  then have se: "story_examples env w path ?d1 = Inr d"
    unfolding getStoryDocs_story_file [OF assms(1,2,3)] ci
    by (auto simp add: and_then_eq_Inr)
  from story_examples_result [OF se u1] assms(11)
  have f: "d = ?d1\<lparr>imports := sf_imports se, metaCode := sf_meta se,
                    storyExamples := sf_stories se, usageExamples := usageExamples d\<rparr>"
    by simp
  have "usage_examples_from env d"
    using se u1 s1 by (rule story_examples_usage)
  then have u: "usageExamples d \<noteq> None \<longleftrightarrow> truthy_str (selector d) \<and> storyExamples d \<noteq> None"
    by (auto simp add: usage_examples_from_def truthy_str_def split: option.splits)
  have fields: "selector d = cd_selector cd \<and> template d = cd_template cd
     \<and> componentCode d = cd_componentCode cd \<and> properties d = cd_properties cd
     \<and> componentDescription d = cd_description cd
     \<and> imports d = sf_imports se \<and> metaCode d = sf_meta se
     \<and> storyExamples d = sf_stories se"
    by (subst f, simp add: assign_component_docs_def)+
  have rest: "d\<lparr>selector := None, template := None, componentCode := None, properties := None,
          componentDescription := None, imports := None, metaCode := None,
          storyExamples := None, usageExamples := None\<rparr>
         = ?d0\<lparr>component := Some c\<rparr>"
    by (subst f) (simp add: assign_component_docs_def initial_docs_def)
  from fields u rest show ?thesis by simp
qed

theorem docs_fields_witness:
  "selector example_docs = cd_selector example_component_docs
   \<and> template example_docs = cd_template example_component_docs
   \<and> componentCode example_docs = cd_componentCode example_component_docs
   \<and> properties example_docs = cd_properties example_component_docs
   \<and> componentDescription example_docs = cd_description example_component_docs
   \<and> imports example_docs = sf_imports example_story_file_doc
   \<and> metaCode example_docs = sf_meta example_story_file_doc
   \<and> storyExamples example_docs = sf_stories example_story_file_doc
   \<and> usageExamples example_docs \<noteq> None"
proof -
  have b: "''/proj/src/button.component''
             = path_resolve (cwd example_world) (path_dirname ''/proj/src/button.stories.ts'')
                 ''./button.component''"
    by (simp add: example_base example_world_def)
  have i: "(1::nat) < length extensions"
    by (simp add: extensions_def)
  have e: "existsSync example_world (''/proj/src/button.component'' @ extensions ! 1)"
    by (simp add: extensions_def example_world_def)
  have n: "\<forall>j<1::nat. \<not> existsSync example_world (''/proj/src/button.component'' @ extensions ! j)"
    by (simp add: extensions_def example_world_def)
  have x: "extractComponentDocs example_world (''/proj/src/button.component'' @ extensions ! 1)
             = Inr (Some example_component_docs)"
    by (simp add: extensions_def example_world_def)
  have y: "extractStoryExamples example_world ''/proj/src/button.stories.ts''
             = Inr (Some example_story_file_doc)"
    by (simp add: example_world_def)
  have t: "truthy_str (cd_selector example_component_docs)"
    and v: "sf_stories example_story_file_doc \<noteq> None"
    by (simp_all add: example_component_docs_def example_story_file_doc_def truthy_str_def)
  from docs_fields [OF example_served example_lookup example_reads example_component
      example_import b i e n x y example_docs_eval] t v
  show ?thesis by simp
qed

section \<open>An extractor that throws \<^verbatim>\<open>null\<close>\<close>

text \<open>
  In the example project with a story extractor that throws \<^verbatim>\<open>null\<close>, the catch block of
  \<^verbatim>\<open>getStoryDocs\<close> reads \<^verbatim>\<open>error.message\<close> of \<^verbatim>\<open>null\<close>, and the handler throws a \<^verbatim>\<open>TypeError\<close>.
\<close>

lemma null_throw_example:
  "getStoryDocs example_env null_throwing_world (ArgsObject (Some ''example-button--primary'') None)
     = Inl (Error ''Cannot read properties of null (reading 'message')'')"
proof -
  have s: "index_served example_env null_throwing_world (Some example_inventory)"
    by (simp add: index_served_def null_throwing_world_def example_world_def example_env_def)
  have i: "e_importPath (snd (example_inventory ! 0)) = Some ''./src/button.stories.ts''"
    by (simp add: example_inventory_def)
  have p: "storyFilePath (projectDir example_env) ''./src/button.stories.ts''
             = ''/proj/src/button.stories.ts''"
    by (simp add: example_env_def example_story_path)
  have c: "component_info null_throwing_world
             (storyFilePath (projectDir example_env) ''./src/button.stories.ts'') example_source
             (initial_docs example_env (Some ''example-button--primary'') (snd (example_inventory ! 0)))
     = Inr ([''/proj/src/button.component'', ''/proj/src/button.component.ts''],
            assign_component_docs (Some example_component_docs)
              ((initial_docs example_env (Some ''example-button--primary'')
                  (snd (example_inventory ! 0)))\<lparr>component := Some ''ButtonComponent''\<rparr>))"
    unfolding p
    by (rule example_component_info)
       (simp_all add: null_throwing_world_def example_world_def example_component example_import)
  show ?thesis
    by (rule thrown_null_escapes [OF s example_lookup i _ not_mdx _ _ c])
       (simp_all add: p null_throwing_world_def example_world_def)
qed


end
